theory Spec2Isabelle
  imports Main
begin

section \<open>The Debian package builder of dl-fldigi (debian.py)\<close>

text \<open>
  The script is a single class \<open>Builder\<close> whose \<open>main\<close> method sets up a
  build directory, runs four stages (\<open>get_orig_tar\<close>, \<open>add_debian_dir\<close>,
  \<open>build\<close>, \<open>get_files\<close>), removes the build directory again and exits.
  The model follows the methods one by one.  What the script leaves to others is a
  parameter of the model: the programs it spawns, \<open>os.path.realpath\<close>, the value of
  \<open>__file__\<close> and \<open>email.utils.formatdate()\<close> are the fields of an
  environment record; the file system is an explicit value that the spawned programs
  may change in any way.  Logger calls have no effect on the control flow or on any
  value the script later reads, and are left out.
\<close>

subsection \<open>Exceptions\<close>

datatype errno = ENOENT | EEXIST | EACCES | ENOTDIR | EISDIR

datatype error =
    Exception string
  | AssertionError
  | IndexError
  | KeyError string
  | ValueError
  | OSError errno
  | IOError errno
  | ShutilError
  | FormatNotModelled

text \<open>
  \<open>FormatNotModelled\<close> marks the one place where the model stops short of Python:
  a replacement field of \<open>str.format\<close> that uses a conversion, a format
  specification, an attribute or an index (\<open>{x!r}\<close>, \<open>{x:>8}\<close>, \<open>{x.y}\<close>,
  \<open>{x[0]}\<close>).  No statement below is about such a template.
\<close>

subsection \<open>Strings\<close>

text \<open>
  The script is Python 2 (\<open>#!/usr/bin/python\<close>, 2011): strings are byte strings
  and the white space of \<open>strip()\<close> and \<open>split()\<close> is the six ASCII characters
  space, tab, line feed, vertical tab, form feed and carriage return.
\<close>

definition newline :: char where
  "newline = CHR 0x0A"

definition isspace :: "char \<Rightarrow> bool" where
  "isspace c = (c \<in> set [CHR 0x20, CHR 0x09, CHR 0x0A, CHR 0x0B, CHR 0x0C, CHR 0x0D])"

definition strip :: "string \<Rightarrow> string" where
  "strip s = rev (dropWhile isspace (rev (dropWhile isspace s)))"

text \<open>\<open>s.split()\<close>: the maximal runs of characters that are not white space.\<close>

fun split_acc :: "string \<Rightarrow> string \<Rightarrow> string list" where
  "split_acc cur [] = (if cur = [] then [] else [rev cur])"
| "split_acc cur (c # cs) =
     (if isspace c then (if cur = [] then split_acc [] cs else rev cur # split_acc [] cs)
      else split_acc (c # cur) cs)"

definition split :: "string \<Rightarrow> string list" where
  "split s = split_acc [] s"

definition startswith :: "string \<Rightarrow> string \<Rightarrow> bool" where
  "startswith s p = (take (length p) s = p)"

definition endswith :: "string \<Rightarrow> string \<Rightarrow> bool" where
  "endswith s p = (length p \<le> length s \<and> drop (length s - length p) s = p)"

text \<open>\<open>s[a:-b]\<close> for \<open>b > 0\<close>: an end before the start gives the empty string.\<close>

definition slice_from_to_end :: "string \<Rightarrow> nat \<Rightarrow> nat \<Rightarrow> string" where
  "slice_from_to_end s a b = drop a (take (length s - b) s)"

subsection \<open>Paths (posixpath)\<close>

definition slash :: char where
  "slash = CHR ''/''"

definition basename :: "string \<Rightarrow> string" where
  "basename p = rev (takeWhile (\<lambda>c. c \<noteq> slash) (rev p))"

text \<open>
  \<open>os.path.dirname\<close>: everything up to the last slash, with the trailing slashes
  removed unless nothing else is left.
\<close>

definition dirname :: "string \<Rightarrow> string" where
  "dirname p =
     (let head = rev (dropWhile (\<lambda>c. c \<noteq> slash) (rev p))
      in if head \<noteq> [] \<and> \<not> list_all (\<lambda>c. c = slash) head
         then rev (dropWhile (\<lambda>c. c = slash) (rev head)) else head)"

definition join2 :: "string \<Rightarrow> string \<Rightarrow> string" where
  "join2 path b =
     (if startswith b [slash] then b
      else if path = [] \<or> endswith path [slash] then path @ b
      else path @ [slash] @ b)"

definition path_join :: "string \<Rightarrow> string list \<Rightarrow> string" where
  "path_join a ps = foldl join2 a ps"

subsection \<open>The file system\<close>

text \<open>
  A file system is a list of entries, a path with what is there, and a list of paths
  the process is refused access to.  Paths are compared as strings: the script builds
  every path it uses by joining names onto the canonical path of the build directory.
  There are no symbolic links.
\<close>

datatype node = Dir | File string

record fsys =
  entries :: "(string \<times> node) list"
  denied :: "string list"

definition lookup :: "fsys \<Rightarrow> string \<Rightarrow> node option" where
  "lookup f p = map_of (entries f) p"

definition lexists :: "fsys \<Rightarrow> string \<Rightarrow> bool" where
  "lexists f p = (lookup f p \<noteq> None)"

definition put :: "fsys \<Rightarrow> string \<Rightarrow> node \<Rightarrow> fsys" where
  "put f p n = f\<lparr>entries := (p, n) # filter (\<lambda>e. fst e \<noteq> p) (entries f)\<rparr>"

text \<open>\<open>under root p\<close>: \<open>p\<close> is \<open>root\<close> or lies in the tree below it.\<close>

definition under :: "string \<Rightarrow> string \<Rightarrow> bool" where
  "under root p =
     (p = root \<or> startswith p (if endswith root [slash] then root else root @ [slash]))"

definition os_stat :: "fsys \<Rightarrow> string \<Rightarrow> error + unit" where
  "os_stat f p =
     (if p \<in> set (denied f) then Inl (OSError EACCES)
      else case lookup f p of None \<Rightarrow> Inl (OSError ENOENT) | Some n \<Rightarrow> Inr ())"

definition os_mkdir :: "fsys \<Rightarrow> string \<Rightarrow> error + fsys" where
  "os_mkdir f p =
     (if p \<in> set (denied f) then Inl (OSError EACCES)
      else if lexists f p then Inl (OSError EEXIST)
      else case lookup f (dirname p) of
             None \<Rightarrow> Inl (OSError ENOENT)
           | Some (File d) \<Rightarrow> Inl (OSError ENOTDIR)
           | Some Dir \<Rightarrow> Inr (put f p Dir))"

text \<open>
  \<open>shutil.rmtree\<close> raises at the first entry of the tree it is refused access
  to.  Which entries are already gone by then depends on the order of the directory
  listing; the model keeps the tree as it was.  In either case the root of the tree is
  still there.
\<close>

definition rmtree :: "fsys \<Rightarrow> string \<Rightarrow> error + fsys" where
  "rmtree f p =
     (case lookup f p of
        None \<Rightarrow> Inl (OSError ENOENT)
      | Some (File d) \<Rightarrow> Inl (OSError ENOTDIR)
      | Some Dir \<Rightarrow>
          if list_ex (\<lambda>e. under p (fst e) \<and> fst e \<in> set (denied f)) (entries f)
          then Inl (OSError EACCES)
          else Inr (f\<lparr>entries := filter (\<lambda>e. \<not> under p (fst e)) (entries f)\<rparr>))"

definition open_read :: "fsys \<Rightarrow> string \<Rightarrow> error + string" where
  "open_read f p =
     (if p \<in> set (denied f) then Inl (IOError EACCES)
      else case lookup f p of
             None \<Rightarrow> Inl (IOError ENOENT)
           | Some Dir \<Rightarrow> Inl (IOError EISDIR)
           | Some (File d) \<Rightarrow> Inr d)"

text \<open>\<open>open(p, "w")\<close>, one \<open>write\<close> of the whole text, and the close.\<close>

definition write_file :: "fsys \<Rightarrow> string \<Rightarrow> string \<Rightarrow> error + fsys" where
  "write_file f p d =
     (if p \<in> set (denied f) then Inl (IOError EACCES)
      else case lookup f p of
             Some Dir \<Rightarrow> Inl (IOError EISDIR)
           | Some (File old) \<Rightarrow> Inr (put f p (File d))
           | None \<Rightarrow>
               (case lookup f (dirname p) of
                  None \<Rightarrow> Inl (IOError ENOENT)
                | Some (File x) \<Rightarrow> Inl (IOError ENOTDIR)
                | Some Dir \<Rightarrow> Inr (put f p (File d))))"

definition shutil_copy :: "fsys \<Rightarrow> string \<Rightarrow> string \<Rightarrow> error + fsys" where
  "shutil_copy f src dst =
     (let dst' = (if lookup f dst = Some Dir then path_join dst [basename src] else dst)
      in if src = dst' \<and> lexists f src then Inl ShutilError
         else case open_read f src of
                Inl e \<Rightarrow> Inl e
              | Inr d \<Rightarrow> write_file f dst' d)"

text \<open>
  The directories above a path, outermost first, as \<open>os.makedirs\<close> walks them.
\<close>

definition ancestors :: "string \<Rightarrow> string list" where
  "ancestors p =
     (if startswith p [slash] then [[slash]] else []) @
     map (\<lambda>i. take i p)
       (filter (\<lambda>i. p ! i = slash \<and> p ! (i - 1) \<noteq> slash) [1 ..< length p])"

definition makedirs :: "fsys \<Rightarrow> string \<Rightarrow> error + fsys" where
  "makedirs f p =
     (if list_ex (\<lambda>q. q \<in> set (denied f)) (p # ancestors p) then Inl (OSError EACCES)
      else if list_ex (\<lambda>q. case lookup f q of Some (File d) \<Rightarrow> True | _ \<Rightarrow> False) (ancestors p)
      then Inl (OSError ENOTDIR)
      else if lexists f p then Inl (OSError EEXIST)
      else Inr (foldl (\<lambda>g q. if lexists g q then g else put g q Dir) f (ancestors p @ [p])))"

text \<open>
  \<open>shutil.copytree(src, dst)\<close>: list the source, make the destination (which must
  not exist), copy every entry below the source to the same place below the
  destination.
\<close>

definition copytree :: "fsys \<Rightarrow> string \<Rightarrow> string \<Rightarrow> error + fsys" where
  "copytree f src dst =
     (if src \<in> set (denied f) then Inl (OSError EACCES)
      else case lookup f src of
             None \<Rightarrow> Inl (OSError ENOENT)
           | Some (File d) \<Rightarrow> Inl (OSError ENOTDIR)
           | Some Dir \<Rightarrow>
               (case makedirs f dst of
                  Inl e \<Rightarrow> Inl e
                | Inr g \<Rightarrow>
                    if list_ex (\<lambda>q. under src q \<and> q \<noteq> src) (denied f) then Inl ShutilError
                    else Inr (foldl (\<lambda>h e. put h (dst @ drop (length src) (fst e)) (snd e)) g
                               (filter (\<lambda>e. under src (fst e) \<and> fst e \<noteq> src) (entries f)))))"

subsection \<open>\<open>str.format\<close> with keyword arguments only\<close>

text \<open>
  \<open>{{\<close> and \<open>}}\<close> give one brace, \<open>{name}\<close> the keyword argument \<open>name\<close>.
  A name that is no keyword raises \<open>KeyError\<close>; an empty or numeric name asks for a
  positional argument, of which there is none (\<open>IndexError\<close>); a single brace
  raises \<open>ValueError\<close>.  The text is read from left to right and the first error is
  the one raised.
\<close>

definition isdigit :: "char \<Rightarrow> bool" where
  "isdigit c = (c \<in> set ''0123456789'')"

definition field_value :: "(string \<times> string) list \<Rightarrow> string \<Rightarrow> error + string" where
  "field_value kw name =
     (if list_ex (\<lambda>c. c \<in> set ''!:.[{'') name then Inl FormatNotModelled
      else if list_all isdigit name then Inl IndexError
      else case map_of kw name of None \<Rightarrow> Inl (KeyError name) | Some v \<Rightarrow> Inr v)"

definition emit :: "string \<Rightarrow> error + string \<Rightarrow> error + string" where
  "emit v r = (case r of Inl e \<Rightarrow> Inl e | Inr t \<Rightarrow> Inr (v @ t))"

fun format_text :: "(string \<times> string) list \<Rightarrow> string \<Rightarrow> error + string"
  and format_field :: "(string \<times> string) list \<Rightarrow> string \<Rightarrow> string \<Rightarrow> error + string" where
  "format_text kw [] = Inr []"
| "format_text kw (c # cs) =
     (if c = CHR ''{'' then
        (case cs of
           [] \<Rightarrow> Inl ValueError
         | d # ds \<Rightarrow> if d = CHR ''{'' then emit [c] (format_text kw ds)
                     else format_field kw [] cs)
      else if c = CHR ''}'' then
        (case cs of
           [] \<Rightarrow> Inl ValueError
         | d # ds \<Rightarrow> if d = CHR ''}'' then emit [c] (format_text kw ds)
                     else Inl ValueError)
      else emit [c] (format_text kw cs))"
| "format_field kw acc [] = Inl ValueError"
| "format_field kw acc (c # cs) =
     (if c = CHR ''}'' then
        (case field_value kw (rev acc) of
           Inl e \<Rightarrow> Inl e
         | Inr v \<Rightarrow> emit v (format_text kw cs))
      else format_field kw (c # acc) cs)"

definition str_format :: "string \<Rightarrow> (string \<times> string) list \<Rightarrow> error + string" where
  "str_format template kw = format_text kw template"

subsection \<open>The regular expression of the path check\<close>

text \<open>
  \<open>re.match(r"^[a-zA-Z0-9_\-/]+$", p)\<close>.  The class is matched greedily; a shorter
  run cannot help, since what follows it would start with a character of the class.
  In Python \<open>$\<close> matches at the end of the string and also just before a line feed
  that is the last character of the string.
\<close>

definition in_class :: "char \<Rightarrow> bool" where
  "in_class c =
     (c \<in> set ''abcdefghijklmnopqrstuvwxyzABCDEFGHIJKLMNOPQRSTUVWXYZ0123456789_-/'')"

definition at_dollar :: "string \<Rightarrow> bool" where
  "at_dollar rest = (rest = [] \<or> rest = [newline])"

definition re_match_path :: "string \<Rightarrow> bool" where
  "re_match_path p =
     (let run = takeWhile in_class p
      in run \<noteq> [] \<and> at_dollar (drop (length run) p))"

subsection \<open>The environment and the state of the builder\<close>

text \<open>
  \<open>run_proc args cwd f\<close> is what spawning \<open>args\<close> in directory \<open>cwd\<close> (the
  script's own when \<open>None\<close>) does on file system \<open>f\<close>: the exit status, or the
  exception of a spawn that failed; what the program wrote to its standard output; the
  file system it leaves.  \<open>glob_glob f pattern\<close> is the list \<open>glob.glob(pattern)\<close>
  returns on \<open>f\<close>: the pattern language is the library's.
\<close>

record env =
  run_proc :: "string list \<Rightarrow> string option \<Rightarrow> fsys \<Rightarrow> (error + int) \<times> string \<times> fsys"
  glob_glob :: "fsys \<Rightarrow> string \<Rightarrow> string list"
  realpath :: "string \<Rightarrow> string"
  script_file :: string
  formatdate :: string

record options =
  directory :: string
  quiet :: bool
  verbose :: bool
  output_dir :: string
  get_src :: bool
  make_jobs :: "string option"
  distro :: "string option"

text \<open>
  The attributes of the \<open>Builder\<close> object, the file system, and \<open>calls\<close>: the
  names of the methods \<open>main\<close> has entered so far, in order (of \<open>setup_build_dir\<close>,
  \<open>clean_build_dir\<close> and the four stages).  \<open>calls\<close> is the only field that is
  not in the source; nothing reads it.  The attributes \<open>location\<close>, \<open>version\<close>,
  \<open>git\<close>, \<open>origname\<close> and \<open>debsrc\<close> are assigned before they are read on every
  path through \<open>main\<close>.
\<close>

record builder =
  options :: options
  dl_fldigi_source :: string
  dl_fldigi_commit :: "string option"
  null_open :: bool
  location :: string
  version :: string
  git :: string
  origname :: string
  debsrc :: string
  fs :: fsys
  calls :: "string list"

text \<open>A method either returns a value or raises, and leaves a state in both cases.\<close>

type_synonym 'a action = "builder \<Rightarrow> (error + 'a) \<times> builder"

definition ret :: "'a \<Rightarrow> 'a action" where
  "ret a s = (Inr a, s)"

definition raise :: "error \<Rightarrow> 'a action" where
  "raise e s = (Inl e, s)"

definition seq :: "'a action \<Rightarrow> ('a \<Rightarrow> 'b action) \<Rightarrow> 'b action" where
  "seq m k s = (case m s of (Inl e, s') \<Rightarrow> (Inl e, s') | (Inr a, s') \<Rightarrow> k a s')"

fun chain :: "unit action list \<Rightarrow> unit action" where
  "chain [] = ret ()"
| "chain (m # ms) = seq m (\<lambda>u. chain ms)"

definition py_assert :: "bool \<Rightarrow> unit action" where
  "py_assert b = (if b then ret () else raise AssertionError)"

definition fs_do :: "(fsys \<Rightarrow> error + fsys) \<Rightarrow> unit action" where
  "fs_do op s = (case op (fs s) of Inl e \<Rightarrow> (Inl e, s) | Inr f \<Rightarrow> (Inr (), s\<lparr>fs := f\<rparr>))"

definition fs_get :: "(fsys \<Rightarrow> error + 'a) \<Rightarrow> 'a action" where
  "fs_get op s = (case op (fs s) of Inl e \<Rightarrow> (Inl e, s) | Inr a \<Rightarrow> (Inr a, s))"

definition enter :: "string \<Rightarrow> unit action" where
  "enter name s = (Inr (), s\<lparr>calls := calls s @ [name]\<rparr>)"

definition loc :: "builder \<Rightarrow> string list \<Rightarrow> string" where
  "loc s args = path_join (location s) args"

subsection \<open>Running programs: \<open>cmd\<close> and \<open>cmd_output\<close>\<close>

text \<open>
  The keyword argument \<open>cwd\<close> of \<open>cmd\<close>: not given, or given (possibly as
  \<open>None\<close>, as the clone does).
\<close>

datatype cwd_arg = Unset | Cwd "string option"

text \<open>
  \<open>cmd_run\<close> is the body of \<open>cmd\<close> (lines 113 to 128) and returns, beside what
  \<open>cmd\<close> does, the text the program wrote to its standard output: \<open>cmd\<close> drops
  it (the output goes to \<open>/dev/null\<close> or to the terminal), \<open>cmd_output\<close> has
  passed the write end of a pipe as \<open>stdout\<close> and reads it back.  The source notes
  that this only works for small outputs: the pipe is read after the program has
  ended, so the text has to fit the pipe's buffer.  The message of the exception
  leaves out \<open>repr(args)\<close>.
\<close>

definition cmd_run :: "env \<Rightarrow> string list \<Rightarrow> cwd_arg \<Rightarrow> string action" where
  "cmd_run e args kw s =
     (let cwd = (case kw of Unset \<Rightarrow> Some (location s) | Cwd c \<Rightarrow> c);
          (r, out, f) = run_proc e args cwd (fs s);
          s' = s\<lparr>fs := f\<rparr>
      in case r of
           Inl x \<Rightarrow> (Inl x, s')
         | Inr status \<Rightarrow>
             if status \<noteq> 0 then (Inl (Exception ''subprocess error exited''), s')
             else (Inr out, s'))"

definition cmd :: "env \<Rightarrow> string list \<Rightarrow> cwd_arg \<Rightarrow> unit action" where
  "cmd e args kw = seq (cmd_run e args kw) (\<lambda>out. ret ())"

definition cmd_output :: "env \<Rightarrow> string list \<Rightarrow> cwd_arg \<Rightarrow> string action" where
  "cmd_output e args kw = seq (cmd_run e args kw) (\<lambda>out. ret (strip out))"

definition default_distro :: "env \<Rightarrow> string action" where
  "default_distro e =
     seq (cmd_output e [''lsb_release'', ''-si''] Unset) (\<lambda>out.
       let distributor = strip out
       in if distributor = ''Debian'' then ret ''unstable''
          else seq (cmd_output e [''lsb_release'', ''-sc''] Unset) (\<lambda>out'. ret (strip out')))"

subsection \<open>The build directory\<close>

text \<open>
  \<open>clean_build_dir\<close> looks at the directory with \<open>os.stat\<close>: \<open>ENOENT\<close>
  means there is nothing to remove, any other error is raised again, and a directory
  that is there is removed with \<open>shutil.rmtree\<close>.  The message of the exception
  of \<open>setup_build_dir\<close> is the source's, cut after \<open>build directory\<close>.
\<close>

definition clean_build_dir :: "unit action" where
  "clean_build_dir =
     seq (enter ''clean_build_dir'') (\<lambda>u s.
       case os_stat (fs s) (location s) of
         Inl (OSError n) \<Rightarrow> if n \<noteq> ENOENT then (Inl (OSError n), s) else (Inr (), s)
       | Inl x \<Rightarrow> (Inl x, s)
       | Inr ok \<Rightarrow> fs_do (\<lambda>f. rmtree f (location s)) s)"

definition setup_build_dir :: "env \<Rightarrow> unit action" where
  "setup_build_dir e =
     seq (enter ''setup_build_dir'') (\<lambda>u s0.
       let s = s0\<lparr>location := realpath e (directory (options s0))\<rparr>
       in if \<not> re_match_path (location s)
          then (Inl (Exception ''Some build scripts don't like non a-zA-Z0-9-_ in the path to the build directory''), s)
          else seq clean_build_dir (\<lambda>u. fs_do (\<lambda>f. os_mkdir f (location s))) s)"

subsection \<open>Stage 1: \<open>get_orig_tar\<close>\<close>

text \<open>Lines 150 to 160: clone, check out, submodules, \<open>make dist\<close>.\<close>

definition get_orig_tar_dist :: "env \<Rightarrow> unit action" where
  "get_orig_tar_dist e s =
     (let g = loc s [''git-tmp'']
      in chain
           [cmd e [''git'', ''clone'', dl_fldigi_source s, g] (Cwd None),
            (case dl_fldigi_commit s of
               None \<Rightarrow> ret ()
             | Some c \<Rightarrow> if c \<noteq> [] then cmd e [''git'', ''checkout'', c] (Cwd (Some g))
                         else ret ()),
            cmd e [''git'', ''submodule'', ''init''] (Cwd (Some g)),
            cmd e [''git'', ''submodule'', ''update''] (Cwd (Some g)),
            cmd e [''autoreconf'', ''-vfi''] (Cwd (Some g)),
            cmd e [''./configure''] (Cwd (Some g)),
            cmd e [''make'', ''dist''] (Cwd (Some g))] s)"

text \<open>
  Lines 162 to 168: the version from the name of the one archive \<open>make dist\<close> left.
  Returns \<open>distname\<close>, which line 180 uses.
\<close>

definition get_orig_tar_version :: "env \<Rightarrow> string action" where
  "get_orig_tar_version e s =
     (let search = glob_glob e (fs s) (loc s [''git-tmp'', ''dl-fldigi-*.tar.gz''])
      in seq (py_assert (length search = 1)) (\<lambda>u.
           let distname = basename (hd search)
           in seq (py_assert (startswith distname ''dl-fldigi-'')) (\<lambda>u.
              seq (py_assert (endswith distname ''.tar.gz'')) (\<lambda>u s'.
                (Inr distname,
                 s'\<lparr>version := slice_from_to_end distname (length ''dl-fldigi-'')
                                 (length ''.tar.gz'')\<rparr>)))) s)"

text \<open>
  Lines 170 to 175: the commit from the first word of \<open>git log --oneline -1\<close>.
  \<open>self.git\<close> is assigned before its length is asserted.
\<close>

definition get_orig_tar_commit :: "env \<Rightarrow> unit action" where
  "get_orig_tar_commit e s =
     seq (cmd_output e [''git'', ''log'', ''--oneline'', ''-1''] (Cwd (Some (loc s [''git-tmp''])))) (\<lambda>line s'.
       case split line of
         [] \<Rightarrow> (Inl IndexError, s')
       | w # ws \<Rightarrow> py_assert (length w = 7) (s'\<lparr>git := w\<rparr>)) s"

text \<open>Lines 177 to 182: the archive under its Debian name; the clone is removed.\<close>

definition get_orig_tar_copy :: "string \<Rightarrow> unit action" where
  "get_orig_tar_copy distname s0 =
     (let s = s0\<lparr>origname := ''dl-fldigi_'' @ version s0 @ ''.orig.tar.gz''\<rparr>
      in chain
           [fs_do (\<lambda>f. shutil_copy f (loc s [''git-tmp'', distname]) (loc s [origname s])),
            fs_do (\<lambda>f. rmtree f (loc s [''git-tmp'']))] s)"

definition get_orig_tar :: "env \<Rightarrow> unit action" where
  "get_orig_tar e =
     seq (enter ''get_orig_tar'') (\<lambda>u.
     seq (get_orig_tar_dist e) (\<lambda>u.
     seq (get_orig_tar_version e) (\<lambda>distname.
     seq (get_orig_tar_commit e) (\<lambda>u.
     get_orig_tar_copy distname))))"

subsection \<open>Stage 2: \<open>add_debian_dir\<close>\<close>

text \<open>
  Lines 185 to 194: the versioned directory, the archive unpacked into it, the
  \<open>debian\<close> directory that lies beside the script copied into it.
\<close>

definition add_debian_dir_tree :: "env \<Rightarrow> unit action" where
  "add_debian_dir_tree e s0 =
     (let s = s0\<lparr>debsrc := ''dl-fldigi-'' @ version s0 @ ''-'' @ git s0\<rparr>;
          t = loc s [debsrc s];
          script_loc = dirname (realpath e (script_file e));
          debian = path_join script_loc [''debian'']
      in chain
           [fs_do (\<lambda>f. os_mkdir f t),
            cmd e [''tar'', ''xfC'', loc s [origname s], t, ''--strip-components=1''] Unset,
            fs_do (\<lambda>f. copytree f debian (loc s [debsrc s, ''debian'']))] s)"

text \<open>Lines 196 to 210: the changelog is read, filled in and written back.\<close>

definition add_debian_dir_changelog :: "env \<Rightarrow> unit action" where
  "add_debian_dir_changelog e s =
     (let changelog_file = loc s [debsrc s, ''debian'', ''changelog'']
      in seq (fs_get (\<lambda>f. open_read f changelog_file)) (\<lambda>changelog.
         seq (case distro (options s) of
                None \<Rightarrow> default_distro e
              | Some d \<Rightarrow> if d \<noteq> [] then ret d else default_distro e) (\<lambda>distro'.
         seq (\<lambda>s'. (str_format changelog
                       [(''version'', version s @ ''-'' @ git s),
                        (''distro'', distro'),
                        (''commit'', git s),
                        (''date'', formatdate e)], s')) (\<lambda>changelog'.
         fs_do (\<lambda>f. write_file f changelog_file changelog')))) s)"

definition add_debian_dir :: "env \<Rightarrow> unit action" where
  "add_debian_dir e =
     seq (enter ''add_debian_dir'') (\<lambda>u.
     seq (add_debian_dir_tree e) (\<lambda>u.
     add_debian_dir_changelog e))"

subsection \<open>Stage 3: \<open>build\<close>\<close>

definition build :: "env \<Rightarrow> unit action" where
  "build e =
     seq (enter ''build'') (\<lambda>u s.
       let args = (case make_jobs (options s) of
                     None \<Rightarrow> []
                   | Some j \<Rightarrow> if j \<noteq> [] then [''-j'' @ j] else []) @
                  (if get_src (options s) then [''-S''] else [])
       in cmd e ([''debuild'', ''-uc'', ''-us''] @ args) (Cwd (Some (loc s [debsrc s]))) s)"

subsection \<open>Stage 4: \<open>get_files\<close>\<close>

definition get_files :: "env \<Rightarrow> unit action" where
  "get_files e =
     seq (enter ''get_files'') (\<lambda>u s.
       let prefix = ''dl-fldigi_'' @ version s @ ''-'' @ git s
       in if get_src (options s) then
            (let files = [prefix @ ''.orig.tar.gz'', prefix @ ''.debian.tar.gz'',
                          prefix @ ''.dsc'']
             in seq (py_assert (files ! 0 = origname s)) (\<lambda>u.
                  chain (map (\<lambda>fn. fs_do (\<lambda>f. shutil_copy f (loc s [fn])
                                                  (output_dir (options s)))) files)) s)
          else
            (let name = prefix @ ''_*.deb'';
                 search = glob_glob e (fs s) (loc s [name])
             in seq (py_assert (length search = 1)) (\<lambda>u.
                  let deb = hd search
                  in fs_do (\<lambda>f. shutil_copy f deb (output_dir (options s)))) s))"

subsection \<open>\<open>main\<close>\<close>

text \<open>
  The three \<open>try\<close> blocks of \<open>main\<close> (lines 30 to 32, 39 to 43, 48 to 50).
  The options are given: \<open>get_options\<close> and the logging levels are not part of the
  model.
\<close>

definition setup_phase :: "env \<Rightarrow> unit action" where
  "setup_phase e =
     seq (fs_do (\<lambda>f. write_file f ''/dev/null'' [])) (\<lambda>u.
     seq (\<lambda>s. (Inr (), s\<lparr>null_open := True\<rparr>)) (\<lambda>u.
     setup_build_dir e))"

definition build_phase :: "env \<Rightarrow> unit action" where
  "build_phase e = chain [get_orig_tar e, add_debian_dir e, build e, get_files e]"

definition cleanup_phase :: "unit action" where
  "cleanup_phase =
     seq (\<lambda>s. (Inr (), s\<lparr>null_open := False\<rparr>)) (\<lambda>u. clean_build_dir)"

text \<open>
  \<open>main\<close> returns the exit status of the process and the final state: \<open>1\<close> from
  either \<open>sys.exit(1)\<close>, \<open>0\<close> when \<open>main\<close> returns.
\<close>

definition main :: "env \<Rightarrow> builder \<Rightarrow> int \<times> builder" where
  "main e s0 =
     (case setup_phase e s0 of
        (Inl x, s1) \<Rightarrow> (1, s1)
      | (Inr u, s1) \<Rightarrow>
          (let (r2, s2) = build_phase e s1;
               delay_error = (case r2 of Inl x \<Rightarrow> True | Inr u \<Rightarrow> False);
               (r3, s3) = cleanup_phase s2
           in if delay_error then (1, s3) else (0, s3)))"

subsection \<open>A sample environment\<close>

text \<open>
  Concrete inputs for the statements below.  \<open>star_glob\<close> is \<open>glob.glob\<close> on
  the patterns met here: no metacharacter in the directory part, one \<open>*\<close> and no
  other metacharacter in the last component, which does not start with a dot.  It
  returns the entries of that directory whose names begin and end as the pattern does.
\<close>

definition star_glob :: "fsys \<Rightarrow> string \<Rightarrow> string list" where
  "star_glob f pattern =
     (let d = dirname pattern;
          b = basename pattern;
          pre = takeWhile (\<lambda>c. c \<noteq> CHR ''*'') b;
          suf = drop (Suc (length pre)) b
      in filter (\<lambda>p. dirname p = d \<and> startswith (basename p) pre \<and>
                      endswith (basename p) suf \<and>
                      length pre + length suf \<le> length (basename p))
           (map fst (entries f)))"

text \<open>
  The programs: the clone makes its directory and may leave \<open>locked\<close>, files that
  can no longer be removed; \<open>make dist\<close> leaves the file \<open>archive\<close>;
  \<open>git log\<close> prints \<open>logline\<close>; \<open>lsb_release\<close> prints \<open>Ubuntu\<close> and
  \<open>natty\<close>; \<open>debuild\<close> leaves, beside the directory it runs in, a package named
  after that directory.  Every program exits with status 0.
\<close>

definition in_dir :: "string option \<Rightarrow> string" where
  "in_dir cwd = (case cwd of None \<Rightarrow> ''.'' | Some d \<Rightarrow> d)"

definition sample_proc ::
  "string \<Rightarrow> string \<Rightarrow> string list \<Rightarrow>
   string list \<Rightarrow> string option \<Rightarrow> fsys \<Rightarrow> (error + int) \<times> string \<times> fsys" where
  "sample_proc archive logline locked args cwd f =
     (if take 2 args = [''git'', ''clone''] then
        (Inr 0, [],
         (foldr (\<lambda>p g. put g p (File [])) locked (put f (last args) Dir))
           \<lparr>denied := locked @ denied f\<rparr>)
      else if args = [''make'', ''dist''] then
        (Inr 0, [], put f (path_join (in_dir cwd) [archive]) (File ''tarball''))
      else if take 2 args = [''git'', ''log''] then (Inr 0, logline, f)
      else if args = [''lsb_release'', ''-si''] then (Inr 0, ''Ubuntu'' @ [newline], f)
      else if args = [''lsb_release'', ''-sc''] then (Inr 0, ''natty'' @ [newline], f)
      else if take 1 args = [''debuild''] then
        (Inr 0, [],
         put f (path_join (dirname (in_dir cwd))
                  [''dl-fldigi_'' @ drop 10 (basename (in_dir cwd)) @ ''_amd64.deb''])
           (File ''deb''))
      else (Inr 0, [], f))"

definition sample_env :: "string \<Rightarrow> string \<Rightarrow> string list \<Rightarrow> env" where
  "sample_env archive logline locked =
     \<lparr>run_proc = sample_proc archive logline locked,
      glob_glob = star_glob,
      realpath = (\<lambda>p. if startswith p [slash] then p else ''/w/'' @ p),
      script_file = ''/p/debian.py'',
      formatdate = ''Thu, 03 Nov 2011 12:00:00 -0000''\<rparr>"

definition sample_fs :: fsys where
  "sample_fs =
     \<lparr>entries =
        [(''/'', Dir), (''/dev'', Dir), (''/dev/null'', File []), (''.'', Dir),
         (''/w'', Dir), (''/p'', Dir), (''/p/debian'', Dir),
         (''/p/debian/changelog'', File ''({version}) {distro}; {commit} {date}'')],
      denied = []\<rparr>"

definition sample_options :: options where
  "sample_options =
     \<lparr>directory = ''/b'', quiet = False, verbose = False, output_dir = ''.'',
      get_src = False, make_jobs = None, distro = None\<rparr>"

definition sample_builder :: builder where
  "sample_builder =
     \<lparr>options = sample_options, dl_fldigi_source = ''./repo'', dl_fldigi_commit = None,
      null_open = False, location = [], version = [], git = [], origname = [],
      debsrc = [], fs = sample_fs, calls = []\<rparr>"

text \<open>
  A good run: version 3.21, commit abcdef1.  The same with an entry the clone leaves
  behind that cannot be removed.
\<close>

definition good_env :: env where
  "good_env = sample_env ''dl-fldigi-3.21.tar.gz'' (''abcdef1 Fix'' @ [newline]) []"

definition stuck_env :: env where
  "stuck_env =
     sample_env ''dl-fldigi-3.21.tar.gz'' (''abcdef1 Fix'' @ [newline])
       [''/b/stuck'']"

text \<open>The states of the good run: after the setup, after \<open>get_orig_tar\<close>, after the build phase.\<close>

definition fs_setup :: fsys where
  "fs_setup =
     \<lparr>entries =
        [(''/b'', Dir), (''/dev/null'', File []), (''/'', Dir), (''/dev'', Dir),
         (''.'', Dir), (''/w'', Dir), (''/p'', Dir), (''/p/debian'', Dir),
         (''/p/debian/changelog'', File ''({version}) {distro}; {commit} {date}'')],
      denied = []\<rparr>"

definition st_setup :: builder where
  "st_setup =
     sample_builder\<lparr>null_open := True, location := ''/b'', fs := fs_setup,
       calls := [''setup_build_dir'', ''clean_build_dir'']\<rparr>"

definition fs_tar :: "string list \<Rightarrow> fsys" where
  "fs_tar locked =
     \<lparr>entries = (''/b/dl-fldigi_3.21.orig.tar.gz'', File ''tarball'') #
                  map (\<lambda>p. (p, File [])) locked @ entries fs_setup,
      denied = locked\<rparr>"

definition st_tar :: "string list \<Rightarrow> builder" where
  "st_tar locked =
     st_setup\<lparr>version := ''3.21'', git := ''abcdef1'',
       origname := ''dl-fldigi_3.21.orig.tar.gz'', fs := fs_tar locked,
       calls := [''setup_build_dir'', ''clean_build_dir'', ''get_orig_tar'']\<rparr>"

definition fs_built :: "string list \<Rightarrow> fsys" where
  "fs_built locked =
     \<lparr>entries =
        [(''./dl-fldigi_3.21-abcdef1_amd64.deb'', File ''deb''),
         (''/b/dl-fldigi_3.21-abcdef1_amd64.deb'', File ''deb''),
         (''/b/dl-fldigi-3.21-abcdef1/debian/changelog'',
          File ''(3.21-abcdef1) natty; abcdef1 Thu, 03 Nov 2011 12:00:00 -0000''),
         (''/b/dl-fldigi-3.21-abcdef1/debian'', Dir),
         (''/b/dl-fldigi-3.21-abcdef1'', Dir)] @ entries (fs_tar locked),
      denied = locked\<rparr>"

definition st_built :: "string list \<Rightarrow> builder" where
  "st_built locked =
     (st_tar locked)\<lparr>debsrc := ''dl-fldigi-3.21-abcdef1'', fs := fs_built locked,
       calls := [''setup_build_dir'', ''clean_build_dir'', ''get_orig_tar'',
                 ''add_debian_dir'', ''build'', ''get_files'']\<rparr>"

text \<open>
  The good run after lines 185 to 194 of \<open>add_debian_dir\<close>, with a value for the
  option \<open>distro\<close>.
\<close>

definition fs_tree :: fsys where
  "fs_tree =
     \<lparr>entries =
        [(''/b/dl-fldigi-3.21-abcdef1/debian/changelog'',
          File ''({version}) {distro}; {commit} {date}''),
         (''/b/dl-fldigi-3.21-abcdef1/debian'', Dir),
         (''/b/dl-fldigi-3.21-abcdef1'', Dir)] @ entries (fs_tar []),
      denied = []\<rparr>"

definition st_tree :: "string option \<Rightarrow> builder" where
  "st_tree opt =
     (st_tar [])\<lparr>options := sample_options\<lparr>distro := opt\<rparr>,
       debsrc := ''dl-fldigi-3.21-abcdef1'', fs := fs_tree\<rparr>"

text \<open>
  A state in source-only mode that carries the names \<open>get_orig_tar\<close> and
  \<open>add_debian_dir\<close> set in the good run.
\<close>

definition st_source :: builder where
  "st_source =
     (st_tar [])\<lparr>options := sample_options\<lparr>get_src := True\<rparr>,
       debsrc := ''dl-fldigi-3.21-abcdef1''\<rparr>"

text \<open>A \<open>git log\<close> that prints two lines.\<close>

definition two_line_env :: env where
  "two_line_env =
     sample_env ''dl-fldigi-3.21.tar.gz''
       (''abcdef1 Fix'' @ [newline] @ ''0123456 Old'' @ [newline]) []"

text \<open>
  A build directory given with a line feed at its end: as an absolute path, and as a
  name relative to the directory \<open>/w\<close> the script runs in.
\<close>

definition newline_builder :: builder where
  "newline_builder =
     sample_builder\<lparr>options := sample_options\<lparr>directory := ''/b'' @ [newline]\<rparr>\<rparr>"

definition relative_newline_builder :: builder where
  "relative_newline_builder =
     sample_builder\<lparr>options := sample_options\<lparr>directory := ''b'' @ [newline]\<rparr>\<rparr>"

text \<open>A \<open>make dist\<close> of a project whose version is empty.\<close>

definition empty_version_env :: env where
  "empty_version_env = sample_env ''dl-fldigi-.tar.gz'' (''abcdef1 Fix'' @ [newline]) []"

text \<open>
  The state after the commands of \<open>get_orig_tar\<close> (lines 150 to 160), for an
  archive name and the paths the clone has locked.
\<close>

definition st_dist :: "string \<Rightarrow> string list \<Rightarrow> builder" where
  "st_dist archive locked =
     st_setup\<lparr>calls := [''setup_build_dir'', ''clean_build_dir'', ''get_orig_tar''],
       fs := \<lparr>entries = (''/b/git-tmp/'' @ archive, File ''tarball'') #
                          map (\<lambda>p. (p, File [])) locked @
                          (''/b/git-tmp'', Dir) # entries fs_setup,
              denied = locked\<rparr>\<rparr>"

text \<open>
  Runs in which \<open>make dist\<close> leaves no archive of the expected name, and a run
  whose commit is printed with six characters.
\<close>

definition no_archive_env :: env where
  "no_archive_env = sample_env ''fldigi.tgz'' (''abcdef1 Fix'' @ [newline]) []"

definition no_archive_stuck_env :: env where
  "no_archive_stuck_env =
     sample_env ''fldigi.tgz'' (''abcdef1 Fix'' @ [newline]) [''/b/stuck'']"

definition short_hash_env :: env where
  "short_hash_env = sample_env ''dl-fldigi-3.21.tar.gz'' (''abcdef Fix'' @ [newline]) []"

subsection \<open>What the specification says, for comparison\<close>

text \<open>
  The output-capturing variant of the process runner, in the words of the
  specification: the first line of the standard output, trimmed.
\<close>

definition first_line :: "string \<Rightarrow> string" where
  "first_line out = takeWhile (\<lambda>c. c \<noteq> newline) out"

definition capture_one_line_spec :: "string \<Rightarrow> string" where
  "capture_one_line_spec out = strip (first_line out)"

text \<open>
  A changelog template, in the words of the specification: text with placeholders.
  \<open>render\<close> writes it the way \<open>str.format\<close> reads it (a brace of the text is
  doubled), \<open>fill\<close> is the text with every placeholder replaced by its value.
\<close>

datatype piece = Text string | Placeholder string

definition escape_braces :: "string \<Rightarrow> string" where
  "escape_braces t =
     concat (map (\<lambda>c. if c = CHR ''{'' \<or> c = CHR ''}'' then [c, c] else [c]) t)"

fun render :: "piece list \<Rightarrow> string" where
  "render [] = []"
| "render (Text t # ps) = escape_braces t @ render ps"
| "render (Placeholder n # ps) = ''{'' @ n @ ''}'' @ render ps"

fun fill :: "(string \<times> string) list \<Rightarrow> piece list \<Rightarrow> string" where
  "fill kw [] = []"
| "fill kw (Text t # ps) = t @ fill kw ps"
| "fill kw (Placeholder n # ps) = (case map_of kw n of None \<Rightarrow> [] | Some v \<Rightarrow> v) @ fill kw ps"

definition changelog_keys :: "string list" where
  "changelog_keys = [''version'', ''distro'', ''commit'', ''date'']"

fun known_piece :: "piece \<Rightarrow> bool" where
  "known_piece (Text t) = True"
| "known_piece (Placeholder n) = (n \<in> set changelog_keys)"

text \<open>
  The distribution name, in the words of the specification: the option when one is
  given (and is not the empty string); otherwise \<open>unstable\<close> when the host says it is
  Debian, and the host's release codename when it says anything else.  The host is
  asked by running \<open>lsb_release\<close> in the build directory; \<open>f\<close> is the file system
  after that.
\<close>

definition lsb_release :: "env \<Rightarrow> builder \<Rightarrow> string \<Rightarrow> fsys \<Rightarrow> (error + int) \<times> string \<times> fsys" where
  "lsb_release e s flag f = run_proc e [''lsb_release'', flag] (Some (location s)) f"

definition resolved_distro :: "env \<Rightarrow> builder \<Rightarrow> string \<Rightarrow> fsys \<Rightarrow> bool" where
  "resolved_distro e s d f =
     ((distro (options s) = Some d \<and> d \<noteq> [] \<and> f = fs s) \<or>
      ((distro (options s) = None \<or> distro (options s) = Some []) \<and>
       (\<exists>o1 f1. lsb_release e s ''-si'' (fs s) = (Inr 0, o1, f1) \<and>
          ((strip o1 = ''Debian'' \<and> d = ''unstable'' \<and> f = f1) \<or>
           (strip o1 \<noteq> ''Debian'' \<and>
            (\<exists>o2. lsb_release e s ''-sc'' f1 = (Inr 0, o2, f) \<and> d = strip o2))))))"

text \<open>The pieces of the sample changelog.\<close>

definition sample_pieces :: "piece list" where
  "sample_pieces =
     [Text ''('', Placeholder ''version'', Text '') '', Placeholder ''distro'',
      Text ''; '', Placeholder ''commit'', Text '' '', Placeholder ''date'']"

subsection \<open>Frames\<close>

text \<open>
  \<open>keeps p m\<close>: the method \<open>m\<close> leaves the part \<open>p\<close> of the state as it
  was, whether it returns or raises.  \<open>core\<close> is the part that only \<open>main\<close>,
  the entry of a method and \<open>setup_build_dir\<close> change.
\<close>

definition keeps :: "(builder \<Rightarrow> 'a) \<Rightarrow> 'b action \<Rightarrow> bool" where
  "keeps p m = (\<forall>s. p (snd (m s)) = p s)"

definition fs_blind :: "(builder \<Rightarrow> 'a) \<Rightarrow> bool" where
  "fs_blind p = (\<forall>s f. p (s\<lparr>fs := f\<rparr>) = p s)"

definition core :: "builder \<Rightarrow> string list \<times> string \<times> options" where
  "core s = (calls s, location s, options s)"

definition stages :: "string list" where
  "stages = [''get_orig_tar'', ''add_debian_dir'', ''build'', ''get_files'']"

section \<open>Properties\<close>

subsection \<open>What a method leaves alone\<close>

lemma keepsD: "keeps p m \<Longrightarrow> p (snd (m s)) = p s"
  by (simp add: keeps_def)

lemma keeps_ret: "keeps p (ret a)"
  by (simp add: keeps_def ret_def)

lemma keeps_raise: "keeps p (raise x)"
  by (simp add: keeps_def raise_def)

lemma keeps_py_assert: "keeps p (py_assert b)"
  by (simp add: py_assert_def keeps_ret keeps_raise)

lemma keeps_seq: "keeps p m \<Longrightarrow> (\<And>a. keeps p (k a)) \<Longrightarrow> keeps p (seq m k)"
  by (auto simp: keeps_def seq_def split: prod.splits sum.splits) (metis snd_conv)+

lemma keeps_chain: "(\<And>m. m \<in> set ms \<Longrightarrow> keeps p m) \<Longrightarrow> keeps p (chain ms)"
  by (induction ms) (auto intro: keeps_ret keeps_seq)

lemma keeps_seq_app:
  "keeps p m \<Longrightarrow> (\<And>a. keeps p (k a)) \<Longrightarrow> p (snd (seq m k s)) = p s"
  by (rule keepsD [OF keeps_seq])

lemma keeps_chain_app:
  "(\<And>m. m \<in> set ms \<Longrightarrow> keeps p m) \<Longrightarrow> p (snd (chain ms s)) = p s"
  by (rule keepsD [OF keeps_chain])

lemma keeps_pure: "keeps p (Pair r)"
  by (simp add: keeps_def)

lemma keeps_fs_do: "fs_blind p \<Longrightarrow> keeps p (fs_do op)"
  by (auto simp: keeps_def fs_blind_def fs_do_def split: sum.splits)

lemma keeps_fs_get: "keeps p (fs_get op)"
  by (auto simp: keeps_def fs_get_def split: sum.splits)

lemma keeps_cmd_run: "fs_blind p \<Longrightarrow> keeps p (cmd_run e args kw)"
  by (auto simp: keeps_def fs_blind_def cmd_run_def Let_def split: prod.splits sum.splits)

lemma keeps_cmd: "fs_blind p \<Longrightarrow> keeps p (cmd e args kw)"
  by (simp add: cmd_def keeps_seq keeps_cmd_run keeps_ret)

lemma keeps_cmd_output: "fs_blind p \<Longrightarrow> keeps p (cmd_output e args kw)"
  by (simp add: cmd_output_def keeps_seq keeps_cmd_run keeps_ret)

lemma keeps_default_distro: "fs_blind p \<Longrightarrow> keeps p (default_distro e)"
  by (simp add: default_distro_def Let_def keeps_seq keeps_cmd_output keeps_ret)

lemma fs_blind_core: "fs_blind core"
  by (simp add: fs_blind_def core_def)

lemma fs_blind_version: "fs_blind version"
  by (simp add: fs_blind_def)

lemma core_dist: "core (snd (get_orig_tar_dist e s)) = core s"
  unfolding get_orig_tar_dist_def Let_def
  by (rule keeps_chain_app)
     (auto intro!: keeps_cmd keeps_ret fs_blind_core split: option.splits)

lemma core_version: "core (snd (get_orig_tar_version e s)) = core s"
  by (auto simp: get_orig_tar_version_def seq_def py_assert_def ret_def raise_def Let_def core_def)

lemma core_commit: "core (snd (get_orig_tar_commit e s)) = core s"
proof -
  have "core (snd (cmd_output e a k s)) = core s" for a k
    by (rule keepsD) (rule keeps_cmd_output [OF fs_blind_core])
  then show ?thesis
    by (auto simp: get_orig_tar_commit_def seq_def py_assert_def ret_def raise_def core_def
             split: prod.splits sum.splits list.splits) (metis snd_conv fst_conv)+
qed

lemma version_commit: "version (snd (get_orig_tar_commit e s)) = version s"
proof -
  have "version (snd (cmd_output e a k s)) = version s" for a k
    by (rule keepsD) (rule keeps_cmd_output [OF fs_blind_version])
  then show ?thesis
    by (auto simp: get_orig_tar_commit_def seq_def py_assert_def ret_def raise_def
             split: prod.splits sum.splits list.splits) (metis snd_conv)+
qed

lemma core_copy: "core (snd (get_orig_tar_copy d s)) = core s"
proof -
  have "core (snd (get_orig_tar_copy d s)) = core (s\<lparr>origname := ''dl-fldigi_'' @ version s @ ''.orig.tar.gz''\<rparr>)"
    unfolding get_orig_tar_copy_def Let_def
    by (rule keeps_chain_app) (auto intro!: keeps_fs_do fs_blind_core)
  then show ?thesis by (simp add: core_def)
qed

lemma version_copy: "version (snd (get_orig_tar_copy d s)) = version s"
proof -
  have "version (snd (get_orig_tar_copy d s)) = version (s\<lparr>origname := ''dl-fldigi_'' @ version s @ ''.orig.tar.gz''\<rparr>)"
    unfolding get_orig_tar_copy_def Let_def
    by (rule keeps_chain_app) (auto intro!: keeps_fs_do fs_blind_version)
  then show ?thesis by simp
qed

lemma core_tree: "core (snd (add_debian_dir_tree e s)) = core s"
proof -
  have "core (snd (add_debian_dir_tree e s)) = core (s\<lparr>debsrc := ''dl-fldigi-'' @ version s @ ''-'' @ git s\<rparr>)"
    unfolding add_debian_dir_tree_def Let_def
    by (rule keeps_chain_app) (auto intro!: keeps_fs_do keeps_cmd fs_blind_core)
  then show ?thesis by (simp add: core_def)
qed

lemma core_changelog: "core (snd (add_debian_dir_changelog e s)) = core s"
  unfolding add_debian_dir_changelog_def Let_def
  by (rule keeps_seq_app)
     (auto intro!: keeps_seq keeps_fs_get keeps_fs_do keeps_default_distro keeps_ret
                   keeps_pure fs_blind_core split: option.splits)

lemma keeps_core_dist: "keeps core (get_orig_tar_dist e)"
  by (simp add: keeps_def core_dist)

lemma keeps_core_version: "keeps core (get_orig_tar_version e)"
  by (simp add: keeps_def core_version)

lemma keeps_core_commit: "keeps core (get_orig_tar_commit e)"
  by (simp add: keeps_def core_commit)

lemma keeps_core_copy: "keeps core (get_orig_tar_copy d)"
  by (simp add: keeps_def core_copy)

lemma keeps_core_tree: "keeps core (add_debian_dir_tree e)"
  by (simp add: keeps_def core_tree)

lemma keeps_core_changelog: "keeps core (add_debian_dir_changelog e)"
  by (simp add: keeps_def core_changelog)

text \<open>A stage adds its own name to the calls, and nothing else to the core.\<close>

lemma enter_then:
  "keeps core k \<Longrightarrow>
   core (snd (seq (enter n) (\<lambda>u. k) s)) = (calls s @ [n], location s, options s)"
  using keepsD [of core k "s\<lparr>calls := calls s @ [n]\<rparr>"]
  by (simp add: seq_def enter_def core_def)

lemma core_get_orig_tar:
  "core (snd (get_orig_tar e s)) = (calls s @ [''get_orig_tar''], location s, options s)"
  unfolding get_orig_tar_def
  by (rule enter_then)
     (intro keeps_seq keeps_core_dist keeps_core_version keeps_core_commit keeps_core_copy)

lemma core_add_debian_dir:
  "core (snd (add_debian_dir e s)) = (calls s @ [''add_debian_dir''], location s, options s)"
  unfolding add_debian_dir_def
  by (rule enter_then) (intro keeps_seq keeps_core_tree keeps_core_changelog)

lemma core_cmd: "core (snd (cmd e a k s)) = core s"
  by (rule keepsD) (rule keeps_cmd [OF fs_blind_core])

lemma core_build:
  "core (snd (build e s)) = (calls s @ [''build''], location s, options s)"
  unfolding build_def
  by (rule enter_then) (simp add: keeps_def Let_def core_cmd)

lemma core_assert_copies:
  "core (snd (seq (py_assert b) (\<lambda>u. chain (map (\<lambda>fn. fs_do (F fn)) fns)) s)) = core s"
  by (rule keeps_seq_app) (auto intro!: keeps_py_assert keeps_chain keeps_fs_do fs_blind_core)

lemma core_assert_copy:
  "core (snd (seq (py_assert b) (\<lambda>u. fs_do F) s)) = core s"
  by (rule keeps_seq_app) (auto intro!: keeps_py_assert keeps_fs_do fs_blind_core)

lemma core_get_files:
  "core (snd (get_files e s)) = (calls s @ [''get_files''], location s, options s)"
  unfolding get_files_def
  apply (rule enter_then)
  apply (unfold keeps_def Let_def)
  apply (intro allI)
  subgoal for t
    by (cases "get_src (options t)")
       (simp_all only: if_True if_False core_assert_copies core_assert_copy)
  done

text \<open>The build phase enters the stages in order and stops at the first that raises.\<close>

lemma build_phase_core:
  "\<exists>n\<in>{1..4}. core (snd (build_phase e s)) = (calls s @ take n stages, location s, options s)"
proof -
  obtain r1 s1 where g: "get_orig_tar e s = (r1, s1)" by (cases "get_orig_tar e s")
  obtain r2 s2 where a: "add_debian_dir e s1 = (r2, s2)" by (cases "add_debian_dir e s1")
  obtain r3 s3 where b: "build e s2 = (r3, s3)" by (cases "build e s2")
  obtain r4 s4 where f: "get_files e s3 = (r4, s4)" by (cases "get_files e s3")
  have c1: "core s1 = (calls s @ [''get_orig_tar''], location s, options s)"
    using core_get_orig_tar [of e s] g by simp
  have c2: "core s2 = (calls s1 @ [''add_debian_dir''], location s1, options s1)"
    using core_add_debian_dir [of e s1] a by simp
  have c3: "core s3 = (calls s2 @ [''build''], location s2, options s2)"
    using core_build [of e s2] b by simp
  have c4: "core s4 = (calls s3 @ [''get_files''], location s3, options s3)"
    using core_get_files [of e s3] f by simp
  have u: "build_phase e s =
      (case get_orig_tar e s of
         (Inl x, t) \<Rightarrow> (Inl x, t)
       | (Inr u, t) \<Rightarrow>
           (case add_debian_dir e t of
              (Inl x, t) \<Rightarrow> (Inl x, t)
            | (Inr u, t) \<Rightarrow>
                (case build e t of
                   (Inl x, t) \<Rightarrow> (Inl x, t)
                 | (Inr u, t) \<Rightarrow> get_files e t)))"
    by (simp add: build_phase_def seq_def ret_def split: prod.splits sum.splits)
  show ?thesis
  proof (cases r1)
    case (Inl x)
    then have "snd (build_phase e s) = s1" using g by (simp add: u)
    then show ?thesis using c1 by (intro bexI [of _ 1]) (simp_all add: stages_def)
  next
    case r1: (Inr v)
    show ?thesis
    proof (cases r2)
      case (Inl x)
      then have "snd (build_phase e s) = s2" using g a r1 by (simp add: u)
      then show ?thesis using c1 c2
        by (intro bexI [of _ 2]) (simp_all add: stages_def core_def)
    next
      case r2: (Inr v)
      show ?thesis
      proof (cases r3)
        case (Inl x)
        then have "snd (build_phase e s) = s3" using g a b r1 r2 by (simp add: u)
        then show ?thesis using c1 c2 c3
          by (intro bexI [of _ 3]) (simp_all add: stages_def core_def)
      next
        case (Inr v)
        then have "snd (build_phase e s) = s4" using g a b f r1 r2 by (simp add: u)
        then show ?thesis using c1 c2 c3 c4
          by (intro bexI [of _ 4]) (simp_all add: stages_def core_def)
      qed
    qed
  qed
qed

subsection \<open>The cleanup\<close>

lemma map_of_filter_under: "map_of (filter (\<lambda>e. \<not> under p (fst e)) xs) p = None"
  by (induction xs) (auto simp: under_def)

lemma core_clean_build_dir:
  "core (snd (clean_build_dir s)) = (calls s @ [''clean_build_dir''], location s, options s)"
  by (auto simp: clean_build_dir_def seq_def enter_def fs_do_def core_def
           split: sum.splits error.splits)

lemma clean_build_dir_removes:
  "fst (clean_build_dir s) = Inr () \<Longrightarrow>
   \<not> lexists (fs (snd (clean_build_dir s))) (location s)"
  by (auto simp: clean_build_dir_def seq_def enter_def fs_do_def os_stat_def rmtree_def
                 lexists_def lookup_def map_of_filter_under
           split: sum.splits error.splits if_splits option.splits node.splits)

lemma core_cleanup_phase:
  "core (snd (cleanup_phase s)) = (calls s @ [''clean_build_dir''], location s, options s)"
  using core_clean_build_dir [of "s\<lparr>null_open := False\<rparr>"]
  by (simp add: cleanup_phase_def seq_def)

lemma cleanup_phase_removes:
  "fst (cleanup_phase s) = Inr () \<Longrightarrow>
   \<not> lexists (fs (snd (cleanup_phase s))) (location s)"
  using clean_build_dir_removes [of "s\<lparr>null_open := False\<rparr>"]
  by (simp add: cleanup_phase_def seq_def)

subsection \<open>How the methods are put together\<close>

lemma main_after_setup:
  "setup_phase e s = (Inr (), s1) \<Longrightarrow>
   main e s = (if isl (fst (build_phase e s1)) then 1 else 0,
               snd (cleanup_phase (snd (build_phase e s1))))"
  by (auto simp: main_def Let_def split: prod.splits sum.splits)

lemma build_phase_unfold:
  "build_phase e s =
     (case get_orig_tar e s of
        (Inl x, s') \<Rightarrow> (Inl x, s')
      | (Inr u, s') \<Rightarrow> chain [add_debian_dir e, build e, get_files e] s')"
  unfolding build_phase_def by (subst chain.simps) (simp add: seq_def del: chain.simps)

lemma get_orig_tar_after_dist:
  "get_orig_tar_dist e (s\<lparr>calls := calls s @ [''get_orig_tar'']\<rparr>) = (Inr (), sd) \<Longrightarrow>
   get_orig_tar e s =
     seq (get_orig_tar_version e) (\<lambda>distname.
       seq (get_orig_tar_commit e) (\<lambda>u. get_orig_tar_copy distname)) sd"
  by (simp add: get_orig_tar_def seq_def enter_def)

lemma get_orig_tar_after_version:
  assumes dist: "get_orig_tar_dist e (s\<lparr>calls := calls s @ [''get_orig_tar'']\<rparr>) = (Inr (), sd)"
    and ver: "get_orig_tar_version e sd = (Inr distname, sv)"
  shows "get_orig_tar e s =
           seq (get_orig_tar_commit e) (\<lambda>u. get_orig_tar_copy distname) sv"
  by (simp add: get_orig_tar_after_dist [OF dist] seq_def ver)

lemma get_orig_tar_Inr:
  "get_orig_tar e s = (Inr (), s') \<Longrightarrow>
   \<exists>sd dn sv sc.
     get_orig_tar_dist e (s\<lparr>calls := calls s @ [''get_orig_tar'']\<rparr>) = (Inr (), sd) \<and>
     get_orig_tar_version e sd = (Inr dn, sv) \<and>
     get_orig_tar_commit e sv = (Inr (), sc) \<and>
     get_orig_tar_copy dn sc = (Inr (), s')"
  by (auto simp: get_orig_tar_def seq_def enter_def split: prod.splits sum.splits)

lemma get_orig_tar_version_mismatch:
  "length (glob_glob e (fs s) (loc s [''git-tmp'', ''dl-fldigi-*.tar.gz''])) \<noteq> 1 \<Longrightarrow>
   get_orig_tar_version e s = (Inl AssertionError, s)"
  by (simp add: get_orig_tar_version_def seq_def py_assert_def raise_def Let_def)

lemma main_on_mismatch:
  assumes ok: "setup_phase e s = (Inr (), s1)"
    and dist: "get_orig_tar_dist e (s1\<lparr>calls := calls s1 @ [''get_orig_tar'']\<rparr>) = (Inr (), sd)"
    and glob: "length (glob_glob e (fs sd) (loc sd [''git-tmp'', ''dl-fldigi-*.tar.gz''])) \<noteq> 1"
  shows "build_phase e s1 = (Inl AssertionError, sd) \<and> main e s = (1, snd (cleanup_phase sd))"
proof -
  have g: "get_orig_tar e s1 = (Inl AssertionError, sd)"
    by (simp add: get_orig_tar_after_dist [OF dist] seq_def
          get_orig_tar_version_mismatch [OF glob])
  then have b: "build_phase e s1 = (Inl AssertionError, sd)"
    by (simp add: build_phase_unfold)
  then show ?thesis by (simp add: main_after_setup [OF ok])
qed

subsection \<open>Strings\<close>

lemma between_prefix_suffix:
  assumes p: "startswith d P" and q: "endswith d S" and ne: "S \<noteq> []" and h: "hd S \<notin> set P"
  shows "d = P @ slice_from_to_end d (length P) (length S) @ S"
proof -
  let ?a = "length P" and ?b = "length d - length S"
  from p have t: "take ?a d = P" by (simp add: startswith_def)
  from q have ls: "length S \<le> length d" and dr: "drop ?b d = S"
    by (simp_all add: endswith_def)
  have lp: "?a \<le> length d"
  proof -
    have "length (take ?a d) = ?a" using t by simp
    then show ?thesis by simp
  qed
  have ab: "?a \<le> ?b"
  proof (rule ccontr)
    assume "\<not> ?a \<le> ?b"
    then have n: "?b < ?a" by simp
    have bl: "?b < length d" using ne ls by (cases S) auto
    have "d ! ?b = hd (drop ?b d)" using bl by (simp add: hd_drop_conv_nth)
    then have dot: "d ! ?b = hd S" using dr by simp
    have "take ?a d ! ?b = d ! ?b" using n by simp
    moreover have "take ?a d ! ?b \<in> set (take ?a d)"
      using n lp by (intro nth_mem) simp
    ultimately have "hd S \<in> set P" using dot t by simp
    then show False using h by simp
  qed
  have "take ?b d = take ?a d @ drop ?a (take ?b d)"
    using ab by (metis append_take_drop_id take_take min.absorb1)
  then have "d = take ?a d @ drop ?a (take ?b d) @ drop ?b d"
    by (metis append_take_drop_id append.assoc)
  then show ?thesis using t dr by (simp add: slice_from_to_end_def)
qed

lemma version_of_distname:
  "startswith d ''dl-fldigi-'' \<Longrightarrow> endswith d ''.tar.gz'' \<Longrightarrow>
   d = ''dl-fldigi-'' @ slice_from_to_end d (length ''dl-fldigi-'') (length ''.tar.gz'') @ ''.tar.gz''"
  by (rule between_prefix_suffix) simp_all

lemma get_orig_tar_version_result:
  assumes "get_orig_tar_version e s = (Inr distname, s')"
  shows "(\<exists>p. glob_glob e (fs s) (loc s [''git-tmp'', ''dl-fldigi-*.tar.gz'']) = [p] \<and>
              distname = basename p) \<and>
         distname = ''dl-fldigi-'' @ version s' @ ''.tar.gz'' \<and>
         s' = s\<lparr>version := version s'\<rparr>"
proof -
  let ?search = "glob_glob e (fs s) (loc s [''git-tmp'', ''dl-fldigi-*.tar.gz''])"
  from assms have one: "length ?search = 1"
    by (auto simp: get_orig_tar_version_def seq_def py_assert_def ret_def raise_def Let_def
             split: if_splits)
  then obtain p where sp: "?search = [p]"
    by (cases ?search) auto
  from assms one have st: "startswith (basename (hd ?search)) ''dl-fldigi-''"
    and en: "endswith (basename (hd ?search)) ''.tar.gz''"
    and dn: "distname = basename (hd ?search)"
    and v: "s' = s\<lparr>version := slice_from_to_end (basename (hd ?search))
                                (length ''dl-fldigi-'') (length ''.tar.gz'')\<rparr>"
    by (auto simp: get_orig_tar_version_def seq_def py_assert_def ret_def raise_def Let_def
             split: if_splits)
  from v have vs: "version s' = slice_from_to_end distname (length ''dl-fldigi-'') (length ''.tar.gz'')"
    using dn by simp
  have "distname = ''dl-fldigi-'' @ version s' @ ''.tar.gz''"
    unfolding vs using version_of_distname st en dn by simp
  moreover have "s' = s\<lparr>version := version s'\<rparr>" using v by simp
  ultimately show ?thesis using sp dn by simp
qed

lemma dropWhile_strip: "dropWhile isspace (strip x) = strip x"
proof -
  let ?y = "dropWhile isspace x"
  let ?z = "rev (dropWhile isspace (rev ?y))"
  have y: "?y = ?z @ rev (takeWhile isspace (rev ?y))"
    by (metis rev_append rev_rev_ident takeWhile_dropWhile_id)
  show ?thesis
  proof (cases "?z = []")
    case True
    have "dropWhile isspace ?z = ?z" unfolding True by simp
    then show ?thesis unfolding strip_def .
  next
    case False
    then have "hd ?z = hd ?y" using y by (metis hd_append2)
    moreover have "?y \<noteq> []"
    proof (rule notI)
      assume e: "?y = []"
      have "?z = []" unfolding e by simp
      then show False using False by blast
    qed
    then have "\<not> isspace (hd ?y)" by (rule hd_dropWhile)
    ultimately have "\<not> isspace (hd ?z)" by simp
    then have "dropWhile isspace ?z = ?z" using False by (cases ?z) auto
    then show ?thesis unfolding strip_def .
  qed
qed

lemma strip_strip: "strip (strip x) = strip x"
proof -
  have "strip (strip x) = rev (dropWhile isspace (rev (strip x)))"
    unfolding strip_def [of "strip x"] dropWhile_strip ..
  also have "\<dots> = strip x" by (simp add: strip_def)
  finally show ?thesis .
qed

subsection \<open>Templates\<close>

lemma emit_emit: "emit a (emit b r) = emit (a @ b) r"
  by (cases r) (simp_all add: emit_def)

lemma emit_Inr: "emit a (Inr t) = Inr (a @ t)"
  by (simp add: emit_def)

lemma format_text_escaped:
  "format_text kw (escape_braces t @ rest) = emit t (format_text kw rest)"
proof (induction t)
  case Nil
  show ?case by (cases "format_text kw rest") (simp_all add: escape_braces_def emit_def)
next
  case (Cons c t)
  have e: "escape_braces (c # t) = (if c = CHR ''{'' \<or> c = CHR ''}'' then [c, c] else [c]) @ escape_braces t"
    by (simp add: escape_braces_def)
  show ?case
    unfolding e using Cons.IH by (auto simp: emit_emit)
qed

lemma format_field_scan:
  "CHR ''}'' \<notin> set n \<Longrightarrow>
   format_field kw acc (n @ CHR ''}'' # rest) =
     (case field_value kw (rev acc @ n) of
        Inl x \<Rightarrow> Inl x
      | Inr v \<Rightarrow> emit v (format_text kw rest))"
  by (induction n arbitrary: acc) auto

lemma field_value_key:
  "n \<in> set changelog_keys \<Longrightarrow>
   field_value [(''version'', v), (''distro'', d), (''commit'', c), (''date'', t)] n =
     Inr (case map_of [(''version'', v), (''distro'', d), (''commit'', c), (''date'', t)] n of
            None \<Rightarrow> [] | Some x \<Rightarrow> x)"
  by (auto simp: changelog_keys_def field_value_def isdigit_def)

lemma format_text_placeholder:
  assumes "n \<in> set changelog_keys"
  shows "format_text [(''version'', v), (''distro'', d), (''commit'', c), (''date'', t)]
           (''{'' @ n @ ''}'' @ rest) =
         emit (case map_of [(''version'', v), (''distro'', d), (''commit'', c), (''date'', t)] n of
                 None \<Rightarrow> [] | Some x \<Rightarrow> x)
           (format_text [(''version'', v), (''distro'', d), (''commit'', c), (''date'', t)] rest)"
proof -
  let ?kw = "[(''version'', v), (''distro'', d), (''commit'', c), (''date'', t)]"
  from assms have nb: "CHR ''}'' \<notin> set n" and ne: "n \<noteq> []" and h: "hd n \<noteq> CHR ''{''"
    by (auto simp: changelog_keys_def)
  obtain a m where n: "n = a # m" using ne by (cases n) auto
  have "format_text ?kw (''{'' @ n @ ''}'' @ rest) = format_field ?kw [] (n @ CHR ''}'' # rest)"
    using h n by simp
  also have "\<dots> = (case field_value ?kw n of Inl x \<Rightarrow> Inl x
                    | Inr v \<Rightarrow> emit v (format_text ?kw rest))"
    using format_field_scan [OF nb, of ?kw "[]" rest] by simp
  finally show ?thesis by (simp add: field_value_key [OF assms])
qed

text \<open>
  A template of text and the four placeholders is filled in: every placeholder is
  replaced by its value, every doubled brace of the text becomes one brace.
\<close>

lemma str_format_render:
  "list_all known_piece ps \<Longrightarrow>
   str_format (render ps) [(''version'', v), (''distro'', d), (''commit'', c), (''date'', t)] =
     Inr (fill [(''version'', v), (''distro'', d), (''commit'', c), (''date'', t)] ps)"
  unfolding str_format_def
proof (induction ps)
  case Nil
  show ?case by simp
next
  case (Cons p ps)
  then have ih: "format_text [(''version'', v), (''distro'', d), (''commit'', c), (''date'', t)] (render ps) =
     Inr (fill [(''version'', v), (''distro'', d), (''commit'', c), (''date'', t)] ps)"
    by simp
  show ?case
  proof (cases p)
    case (Text x)
    then show ?thesis by (simp only: render.simps fill.simps format_text_escaped ih emit_Inr)
  next
    case (Placeholder n)
    then have k: "n \<in> set changelog_keys" using Cons.prems by simp
    show ?thesis unfolding Placeholder render.simps fill.simps
      by (simp only: format_text_placeholder [OF k] ih emit_Inr)
  qed
qed

subsection \<open>The distribution name\<close>

lemma cmd_output_exit0:
  "run_proc e args (Some (location s)) (fs s) = (Inr 0, out, f) \<Longrightarrow>
   cmd_output e args Unset s = (Inr (strip out), s\<lparr>fs := f\<rparr>)"
  by (simp add: cmd_output_def cmd_run_def seq_def ret_def Let_def)

lemma default_distro_debian:
  assumes "lsb_release e s ''-si'' (fs s) = (Inr 0, o1, f1)" and "strip o1 = ''Debian''"
  shows "default_distro e s = (Inr ''unstable'', s\<lparr>fs := f1\<rparr>)"
proof -
  have "cmd_output e [''lsb_release'', ''-si''] Unset s = (Inr (strip o1), s\<lparr>fs := f1\<rparr>)"
    using assms(1) by (intro cmd_output_exit0) (simp add: lsb_release_def)
  moreover have "strip ''Debian'' = ''Debian''"
    using strip_strip [of o1] by (simp only: assms(2))
  ultimately show ?thesis
    using assms(2) by (simp add: default_distro_def seq_def Let_def ret_def)
qed

lemma default_distro_other:
  assumes "lsb_release e s ''-si'' (fs s) = (Inr 0, o1, f1)" and "strip o1 \<noteq> ''Debian''"
    and "lsb_release e s ''-sc'' f1 = (Inr 0, o2, f2)"
  shows "default_distro e s = (Inr (strip o2), s\<lparr>fs := f2\<rparr>)"
proof -
  have a: "cmd_output e [''lsb_release'', ''-si''] Unset s = (Inr (strip o1), s\<lparr>fs := f1\<rparr>)"
    using assms(1) by (intro cmd_output_exit0) (simp add: lsb_release_def)
  have "cmd_output e [''lsb_release'', ''-sc''] Unset (s\<lparr>fs := f1\<rparr>) =
          (Inr (strip o2), s\<lparr>fs := f1\<rparr>\<lparr>fs := f2\<rparr>)"
    using assms(3) by (intro cmd_output_exit0) (simp add: lsb_release_def)
  then show ?thesis
    using a assms(2) by (simp add: default_distro_def seq_def Let_def strip_strip ret_def)
qed

lemma resolved_distro_run:
  assumes "resolved_distro e s d f"
  shows "(case distro (options s) of
            None \<Rightarrow> default_distro e
          | Some x \<Rightarrow> if x \<noteq> [] then ret x else default_distro e) s = (Inr d, s\<lparr>fs := f\<rparr>)"
proof -
  from assms consider
      (given) "distro (options s) = Some d" "d \<noteq> []" "f = fs s"
    | (debian) o1 where "distro (options s) = None \<or> distro (options s) = Some []"
        "lsb_release e s ''-si'' (fs s) = (Inr 0, o1, f)" "strip o1 = ''Debian''" "d = ''unstable''"
    | (other) o1 f1 o2 where "distro (options s) = None \<or> distro (options s) = Some []"
        "lsb_release e s ''-si'' (fs s) = (Inr 0, o1, f1)" "strip o1 \<noteq> ''Debian''"
        "lsb_release e s ''-sc'' f1 = (Inr 0, o2, f)" "d = strip o2"
    unfolding resolved_distro_def by blast
  then show ?thesis
  proof cases
    case given
    then show ?thesis by (simp add: ret_def)
  next
    case debian
    from default_distro_debian [OF debian(2,3)] debian(1,4) show ?thesis by auto
  next
    case other
    from default_distro_other [OF other(2,3,4)] other(1,5) show ?thesis by auto
  qed
qed

lemma map_of_put: "lookup (put g p n) p = Some n"
  by (simp add: lookup_def put_def)

lemma write_file_content: "write_file g p t = Inr g' \<Longrightarrow> lookup g' p = Some (File t)"
  by (auto simp: write_file_def map_of_put split: if_splits option.splits node.splits)

subsection \<open>The sample runs, step by step\<close>

lemma sample_setup: "setup_phase (sample_env a l k) sample_builder = (Inr (), st_setup)"
  by code_simp

lemma good_setup: "setup_phase good_env sample_builder = (Inr (), st_setup)"
  unfolding good_env_def by (rule sample_setup)

lemma good_tar: "get_orig_tar good_env st_setup = (Inr (), st_tar [])"
  by code_simp

lemma good_tree: "add_debian_dir_tree good_env ((st_tar [])\<lparr>calls := calls (st_tar []) @ [''add_debian_dir'']\<rparr>) =
   (Inr (), (st_tree None)\<lparr>calls := calls (st_tar []) @ [''add_debian_dir'']\<rparr>)"
  by code_simp

lemma good_rest:
  "chain [add_debian_dir good_env, build good_env, get_files good_env] (st_tar []) =
     (Inr (), st_built [])"
  by code_simp

lemma good_build: "build_phase good_env st_setup = (Inr (), st_built [])"
  by (simp only: build_phase_unfold good_tar good_rest prod.case sum.case)

lemma good_cleanup: "fst (cleanup_phase (st_built [])) = Inr ()"
  by code_simp

lemma stuck_setup: "setup_phase stuck_env sample_builder = (Inr (), st_setup)"
  unfolding stuck_env_def by (rule sample_setup)

lemma stuck_tar: "get_orig_tar stuck_env st_setup = (Inr (), st_tar [''/b/stuck''])"
  by code_simp

lemma stuck_rest:
  "chain [add_debian_dir stuck_env, build stuck_env, get_files stuck_env]
     (st_tar [''/b/stuck'']) = (Inr (), st_built [''/b/stuck''])"
  by code_simp

lemma stuck_build: "build_phase stuck_env st_setup = (Inr (), st_built [''/b/stuck''])"
  by (simp only: build_phase_unfold stuck_tar stuck_rest prod.case sum.case)

lemma stuck_cleanup:
  "cleanup_phase (st_built [''/b/stuck'']) =
     (Inl (OSError EACCES),
      (st_built [''/b/stuck''])\<lparr>null_open := False,
         calls := calls (st_built [''/b/stuck'']) @ [''clean_build_dir'']\<rparr>)"
  by code_simp

lemma stuck_main:
  "main stuck_env sample_builder =
     (0, (st_built [''/b/stuck''])\<lparr>null_open := False,
            calls := calls (st_built [''/b/stuck'']) @ [''clean_build_dir'']\<rparr>)"
  by (simp add: main_after_setup [OF stuck_setup] stuck_build stuck_cleanup)

lemma built_has_dir: "lexists (fs_built [''/b/stuck'']) ''/b''"
  by code_simp

lemma no_archive_dist:
  "get_orig_tar_dist no_archive_env (st_setup\<lparr>calls := calls st_setup @ [''get_orig_tar'']\<rparr>)
     = (Inr (), st_dist ''fldigi.tgz'' [])"
  by code_simp

lemma no_archive_glob:
  "glob_glob no_archive_env (fs (st_dist ''fldigi.tgz'' []))
     (loc (st_dist ''fldigi.tgz'' []) [''git-tmp'', ''dl-fldigi-*.tar.gz'']) = []"
  by code_simp

lemma no_archive_cleanup:
  "cleanup_phase (st_dist ''fldigi.tgz'' []) =
     (Inr (), (st_dist ''fldigi.tgz'' [])\<lparr>null_open := False,
        calls := calls (st_dist ''fldigi.tgz'' []) @ [''clean_build_dir''],
        fs := fs_setup\<lparr>entries := tl (entries fs_setup)\<rparr>\<rparr>)"
  by code_simp

lemma no_archive_stuck_dist:
  "get_orig_tar_dist no_archive_stuck_env
     (st_setup\<lparr>calls := calls st_setup @ [''get_orig_tar'']\<rparr>)
     = (Inr (), st_dist ''fldigi.tgz'' [''/b/stuck''])"
  by code_simp

lemma no_archive_stuck_glob:
  "glob_glob no_archive_stuck_env (fs (st_dist ''fldigi.tgz'' [''/b/stuck'']))
     (loc (st_dist ''fldigi.tgz'' [''/b/stuck'']) [''git-tmp'', ''dl-fldigi-*.tar.gz'']) = []"
  by code_simp

lemma no_archive_stuck_cleanup:
  "(case cleanup_phase (st_dist ''fldigi.tgz'' [''/b/stuck'']) of
      (r, s') \<Rightarrow> r = Inl (OSError EACCES) \<and> lexists (fs s') ''/b'')"
  by code_simp

lemma short_hash_dist:
  "get_orig_tar_dist short_hash_env (st_setup\<lparr>calls := calls st_setup @ [''get_orig_tar'']\<rparr>)
     = (Inr (), st_dist ''dl-fldigi-3.21.tar.gz'' [])"
  by code_simp

lemma short_hash_version:
  "get_orig_tar_version short_hash_env (st_dist ''dl-fldigi-3.21.tar.gz'' []) =
     (Inr ''dl-fldigi-3.21.tar.gz'', (st_dist ''dl-fldigi-3.21.tar.gz'' [])\<lparr>version := ''3.21''\<rparr>)"
  by code_simp

lemma short_hash_log:
  "cmd_output short_hash_env [''git'', ''log'', ''--oneline'', ''-1'']
     (Cwd (Some (loc ((st_dist ''dl-fldigi-3.21.tar.gz'' [])\<lparr>version := ''3.21''\<rparr>) [''git-tmp''])))
     ((st_dist ''dl-fldigi-3.21.tar.gz'' [])\<lparr>version := ''3.21''\<rparr>) =
   (Inr ''abcdef Fix'', (st_dist ''dl-fldigi-3.21.tar.gz'' [])\<lparr>version := ''3.21''\<rparr>)"
  by code_simp

lemma short_hash_split: "split ''abcdef Fix'' = [''abcdef'', ''Fix'']"
  by code_simp

lemma tree_read:
  "open_read (fs (st_tree opt)) (loc (st_tree opt) [debsrc (st_tree opt), ''debian'', ''changelog''])
     = Inr (render sample_pieces)"
  by code_simp

lemma sample_pieces_known: "list_all known_piece sample_pieces"
  by code_simp

lemma tree_lsb_si:
  "lsb_release good_env (st_tree opt) ''-si'' (fs (st_tree opt)) =
     (Inr 0, ''Ubuntu'' @ [newline], fs_tree)"
  by code_simp

lemma tree_lsb_sc:
  "lsb_release good_env (st_tree opt) ''-sc'' fs_tree = (Inr 0, ''natty'' @ [newline], fs_tree)"
  by code_simp

lemma strip_ubuntu: "strip (''Ubuntu'' @ [newline]) = ''Ubuntu''"
  by code_simp

lemma strip_natty: "strip (''natty'' @ [newline]) = ''natty''"
  by code_simp

lemma tree_resolved:
  assumes "opt = None \<or> opt = Some []"
  shows "resolved_distro good_env (st_tree opt) ''natty'' fs_tree"
proof -
  have o: "distro (options (st_tree opt)) = opt" by (simp add: st_tree_def)
  have "strip (''Ubuntu'' @ [newline]) \<noteq> ''Debian''" unfolding strip_ubuntu by simp
  then have "\<exists>o1 f1. lsb_release good_env (st_tree opt) ''-si'' (fs (st_tree opt)) = (Inr 0, o1, f1) \<and>
          ((strip o1 = ''Debian'' \<and> ''natty'' = ''unstable'' \<and> fs_tree = f1) \<or>
           (strip o1 \<noteq> ''Debian'' \<and>
            (\<exists>o2. lsb_release good_env (st_tree opt) ''-sc'' f1 = (Inr 0, o2, fs_tree) \<and> ''natty'' = strip o2)))"
    using tree_lsb_si [of opt] tree_lsb_sc [of opt] strip_natty by metis
  then show ?thesis unfolding resolved_distro_def o using assms by blast
qed

lemma tree_fill:
  "fill [(''version'', version (st_tree opt) @ ''-'' @ git (st_tree opt)), (''distro'', ''natty''),
         (''commit'', git (st_tree opt)), (''date'', formatdate good_env)] sample_pieces =
   ''(3.21-abcdef1) natty; abcdef1 Thu, 03 Nov 2011 12:00:00 -0000''"
  by code_simp

lemma tree_write:
  "fst (fs_do (\<lambda>g. write_file g (loc (st_tree opt) [debsrc (st_tree opt), ''debian'', ''changelog'']) t)
          ((st_tree opt)\<lparr>fs := fs_tree\<rparr>)) = Inr ()"
  by code_simp

subsection \<open>The exit status\<close>

text \<open>
  Claim C1, as amended.  The exit status of the process is nonzero if and only if the
  setup phase raised or, the setup having succeeded, the build phase (acquisition,
  injection, build, collection) raised.  What the cleanup phase does has no part in it:
  its exception is caught and the exit status stays what the build phase made it.
\<close>

theorem main_exit_status:
  "(fst (main e s) \<noteq> 0) =
     (case setup_phase e s of
        (Inl x, s1) \<Rightarrow> True
      | (Inr u, s1) \<Rightarrow> isl (fst (build_phase e s1)))"
  by (auto simp: main_def Let_def split: prod.splits sum.splits)

text \<open>
  Claim C1 as stated fails: in the sample run whose clone leaves an entry that cannot
  be removed, the setup and the build phase succeed, the cleanup phase raises
  \<open>OSError\<close>, and the exit status is 0.
\<close>

theorem cleanup_failure_exits_zero:
  "setup_phase stuck_env sample_builder = (Inr (), st_setup) \<and>
   fst (build_phase stuck_env st_setup) = Inr () \<and>
   fst (cleanup_phase (snd (build_phase stuck_env st_setup))) = Inl (OSError EACCES) \<and>
   fst (main stuck_env sample_builder) = 0"
  by (simp add: main_def stuck_setup stuck_build stuck_cleanup)

subsection \<open>Collecting the files in source-only mode\<close>

text \<open>
  Claim C2 (the code falls short of it).  In source-only mode \<open>get_files\<close> asserts
  that \<open>dl-fldigi_<version>-<git>.orig.tar.gz\<close> is \<open>self.origname\<close>, which
  \<open>get_orig_tar\<close> has set to \<open>dl-fldigi_<version>.orig.tar.gz\<close>.  The two
  names differ for every version and every commit, so the assertion fails, and it
  fails before the first file is copied: the state is the one \<open>get_files\<close> was
  entered with, its name added to the calls.
\<close>

theorem get_files_source_only_raises:
  "get_src (options s) \<Longrightarrow> origname s = ''dl-fldigi_'' @ version s @ ''.orig.tar.gz'' \<Longrightarrow>
   get_files e s = (Inl AssertionError, s\<lparr>calls := calls s @ [''get_files'']\<rparr>)"
  by (simp add: get_files_def seq_def enter_def py_assert_def raise_def Let_def)

text \<open>The same at version 3.21 and commit abcdef1.\<close>

theorem get_files_source_only_raises_witness:
  "get_src (options st_source) \<and>
   origname st_source = ''dl-fldigi_'' @ version st_source @ ''.orig.tar.gz'' \<and>
   version st_source = ''3.21'' \<and> git st_source = ''abcdef1'' \<and>
   get_files good_env st_source =
     (Inl AssertionError, st_source\<lparr>calls := calls st_source @ [''get_files'']\<rparr>)"
proof -
  have a: "get_src (options st_source)"
    by (simp add: st_source_def sample_options_def)
  have b: "origname st_source = ''dl-fldigi_'' @ version st_source @ ''.orig.tar.gz''"
    by (simp add: st_source_def st_tar_def)
  have c: "version st_source = ''3.21'' \<and> git st_source = ''abcdef1''"
    by (simp add: st_source_def st_tar_def)
  show ?thesis
    using a b c get_files_source_only_raises [OF a b, of good_env] by simp
qed

text \<open>
  As a consequence no source-only run succeeds: \<open>get_orig_tar\<close> sets
  \<open>origname\<close> from the version, the stages after it leave both alone, and so the
  build phase raises in \<open>get_files\<close> at the latest.  The exit status is 1 in
  every environment.
\<close>

lemma fs_blind_names: "fs_blind (\<lambda>s. (origname s, version s, options s))"
  by (simp add: fs_blind_def)

lemma names_tree:
  "(origname (snd (add_debian_dir_tree e s)), version (snd (add_debian_dir_tree e s)),
    options (snd (add_debian_dir_tree e s))) = (origname s, version s, options s)"
proof -
  have "(\<lambda>s. (origname s, version s, options s)) (snd (add_debian_dir_tree e s)) =
        (\<lambda>s. (origname s, version s, options s))
          (s\<lparr>debsrc := ''dl-fldigi-'' @ version s @ ''-'' @ git s\<rparr>)"
    unfolding add_debian_dir_tree_def Let_def
    by (rule keeps_chain_app) (auto intro!: keeps_fs_do keeps_cmd fs_blind_names)
  then show ?thesis by simp
qed

lemma names_changelog:
  "(origname (snd (add_debian_dir_changelog e s)), version (snd (add_debian_dir_changelog e s)),
    options (snd (add_debian_dir_changelog e s))) = (origname s, version s, options s)"
proof -
  have "(\<lambda>s. (origname s, version s, options s)) (snd (add_debian_dir_changelog e s)) =
        (\<lambda>s. (origname s, version s, options s)) s"
    unfolding add_debian_dir_changelog_def Let_def
    by (rule keeps_seq_app)
       (auto intro!: keeps_seq keeps_fs_get keeps_fs_do keeps_default_distro keeps_ret
                     keeps_pure fs_blind_names split: option.splits)
  then show ?thesis by simp
qed

lemma names_add_debian_dir:
  "add_debian_dir e s = (r, s') \<Longrightarrow>
   origname s' = origname s \<and> version s' = version s \<and> options s' = options s"
  using names_tree [of e "s\<lparr>calls := calls s @ [''add_debian_dir'']\<rparr>"]
    names_changelog [of e "snd (add_debian_dir_tree e (s\<lparr>calls := calls s @ [''add_debian_dir'']\<rparr>))"]
  by (auto simp: add_debian_dir_def seq_def enter_def split: prod.splits sum.splits)

lemma names_build:
  "build e s = (r, s') \<Longrightarrow>
   origname s' = origname s \<and> version s' = version s \<and> options s' = options s"
proof -
  have "(\<lambda>s. (origname s, version s, options s)) (snd (cmd e a k t)) =
        (\<lambda>s. (origname s, version s, options s)) t" for a k t
    by (rule keepsD) (rule keeps_cmd [OF fs_blind_names])
  then have c: "origname (snd (cmd e a k t)) = origname t \<and> version (snd (cmd e a k t)) = version t
      \<and> options (snd (cmd e a k t)) = options t" for a k t
    by simp
  assume "build e s = (r, s')"
  then have "s' = snd (cmd e ([''debuild'', ''-uc'', ''-us''] @
         ((case make_jobs (options s) of None \<Rightarrow> [] | Some j \<Rightarrow> if j \<noteq> [] then [''-j'' @ j] else []) @
          (if get_src (options s) then [''-S''] else [])))
       (Cwd (Some (loc (s\<lparr>calls := calls s @ [''build'']\<rparr>)
                     [debsrc (s\<lparr>calls := calls s @ [''build'']\<rparr>)])))
       (s\<lparr>calls := calls s @ [''build'']\<rparr>))"
    by (auto simp: build_def seq_def enter_def Let_def)
  then show ?thesis using c by simp
qed

lemma origname_after_get_orig_tar:
  assumes "get_orig_tar e s = (Inr (), s')"
  shows "origname s' = ''dl-fldigi_'' @ version s' @ ''.orig.tar.gz'' \<and> options s' = options s"
proof -
  from get_orig_tar_Inr [OF assms] obtain dn sc where
    k: "get_orig_tar_copy dn sc = (Inr (), s')" by blast
  have "(\<lambda>s. (origname s, version s)) (snd (get_orig_tar_copy dn sc)) =
        (\<lambda>s. (origname s, version s))
          (sc\<lparr>origname := ''dl-fldigi_'' @ version sc @ ''.orig.tar.gz''\<rparr>)"
    unfolding get_orig_tar_copy_def Let_def
    by (rule keeps_chain_app) (auto intro!: keeps_fs_do simp: fs_blind_def)
  then have "origname s' = ''dl-fldigi_'' @ version s' @ ''.orig.tar.gz''"
    using k by simp
  moreover have "options s' = options s"
    using core_get_orig_tar [of e s] assms by (simp add: core_def)
  ultimately show ?thesis by simp
qed

lemma get_files_source_only:
  "get_src (options s) \<Longrightarrow> origname s = ''dl-fldigi_'' @ version s @ ''.orig.tar.gz'' \<Longrightarrow>
   fst (get_files e s) = Inl AssertionError"
  by (simp add: get_files_def seq_def enter_def py_assert_def raise_def Let_def)

lemma source_only_build_phase_raises:
  assumes "get_src (options s)"
  shows "isl (fst (build_phase e s))"
proof -
  obtain r1 s1 where g: "get_orig_tar e s = (r1, s1)" by (cases "get_orig_tar e s")
  obtain r2 s2 where a: "add_debian_dir e s1 = (r2, s2)" by (cases "add_debian_dir e s1")
  obtain r3 s3 where b: "build e s2 = (r3, s3)" by (cases "build e s2")
  have u: "build_phase e s =
      (case get_orig_tar e s of
         (Inl x, t) \<Rightarrow> (Inl x, t)
       | (Inr u, t) \<Rightarrow>
           (case add_debian_dir e t of
              (Inl x, t) \<Rightarrow> (Inl x, t)
            | (Inr u, t) \<Rightarrow>
                (case build e t of
                   (Inl x, t) \<Rightarrow> (Inl x, t)
                 | (Inr u, t) \<Rightarrow> get_files e t)))"
    by (simp add: build_phase_def seq_def ret_def split: prod.splits sum.splits)
  show ?thesis
  proof (cases "isl r1 \<or> isl r2 \<or> isl r3")
    case True
    then show ?thesis using g a b by (auto simp: u split: sum.splits)
  next
    case False
    then have r: "r1 = Inr ()" "r2 = Inr ()" "r3 = Inr ()"
      by (cases r1; cases r2; cases r3; simp)+
    from origname_after_get_orig_tar [of e s s1] g r
    have n1: "origname s1 = ''dl-fldigi_'' @ version s1 @ ''.orig.tar.gz''"
      and o1: "options s1 = options s" by simp_all
    from names_add_debian_dir [OF a] names_build [OF b] n1 o1
    have n3: "origname s3 = ''dl-fldigi_'' @ version s3 @ ''.orig.tar.gz''"
      and o3: "get_src (options s3)" using assms by simp_all
    have "fst (get_files e s3) = Inl AssertionError" by (rule get_files_source_only [OF o3 n3])
    then show ?thesis using g a b r by (simp add: u)
  qed
qed

lemma options_clean: "clean_build_dir t = (r, t') \<Longrightarrow> options t' = options t"
  using core_clean_build_dir [of t] by (simp add: core_def)

lemma options_setup_build_dir: "setup_build_dir e s = (r, s') \<Longrightarrow> options s' = options s"
proof -
  assume a: "setup_build_dir e s = (r, s')"
  let ?s = "s\<lparr>calls := calls s @ [''setup_build_dir''],
                location := realpath e (directory (options s))\<rparr>"
  show ?thesis
  proof (cases "re_match_path (realpath e (directory (options s)))")
    case False
    then show ?thesis using a by (auto simp: setup_build_dir_def seq_def enter_def Let_def)
  next
    case True
    obtain rc sc where c: "clean_build_dir ?s = (rc, sc)" by (cases "clean_build_dir ?s")
    have oc: "options sc = options s" using options_clean [OF c] by simp
    have "s' = sc \<or> (\<exists>f. s' = sc\<lparr>fs := f\<rparr>)"
      using a True c
      by (auto simp: setup_build_dir_def seq_def enter_def Let_def fs_do_def
               split: sum.splits)
    then show ?thesis using oc by auto
  qed
qed

lemma options_setup_phase: "setup_phase e s = (r, s') \<Longrightarrow> options s' = options s"
proof -
  assume a: "setup_phase e s = (r, s')"
  show ?thesis
  proof (cases "write_file (fs s) ''/dev/null'' []")
    case (Inl x)
    then show ?thesis using a by (simp add: setup_phase_def seq_def fs_do_def)
  next
    case (Inr f)
    then have "setup_build_dir e (s\<lparr>fs := f, null_open := True\<rparr>) = (r, s')"
      using a by (simp add: setup_phase_def seq_def fs_do_def)
    from options_setup_build_dir [OF this] show ?thesis by simp
  qed
qed

lemma source_only_run_fails: "get_src (options s) \<Longrightarrow> fst (main e s) = 1"
proof -
  assume src: "get_src (options s)"
  obtain r s1 where p: "setup_phase e s = (r, s1)" by (cases "setup_phase e s")
  show ?thesis
  proof (cases r)
    case (Inl x)
    then show ?thesis using p by (simp add: main_def)
  next
    case (Inr u)
    then have ok: "setup_phase e s = (Inr (), s1)" using p by simp
    have "get_src (options s1)" using options_setup_phase [OF p] src by simp
    then have "isl (fst (build_phase e s1))" by (rule source_only_build_phase_raises)
    then show ?thesis by (simp add: main_after_setup [OF ok])
  qed
qed

subsection \<open>The cleanup runs once\<close>

text \<open>
  Claim C3, as amended.  When the setup has succeeded, the build phase enters the
  stages in order, as many as do not raise and the one that does; none of them is the
  cleanup.  Whatever the build phase did, \<open>main\<close> then enters \<open>clean_build_dir\<close>
  exactly once, and that is the last call of the run.  (The setup has called it once
  before, to remove what an earlier run had left.)  If this cleanup does not raise, the
  build directory does not exist when the process exits.
\<close>

theorem cleanup_runs_once_after_build:
  assumes ok: "setup_phase e s = (Inr (), s1)"
  shows "(\<exists>n\<in>{1..4}. calls (snd (build_phase e s1)) = calls s1 @ take n stages) \<and>
         ''clean_build_dir'' \<notin> set stages \<and>
         calls (snd (main e s)) = calls (snd (build_phase e s1)) @ [''clean_build_dir''] \<and>
         location (snd (main e s)) = location s1 \<and>
         (fst (cleanup_phase (snd (build_phase e s1))) = Inr () \<longrightarrow>
            \<not> lexists (fs (snd (main e s))) (location s1))"
proof -
  let ?s2 = "snd (build_phase e s1)"
  from build_phase_core [of e s1] obtain n where
    n: "n \<in> {1..4}" and c: "core ?s2 = (calls s1 @ take n stages, location s1, options s1)"
    by blast
  have m: "snd (main e s) = snd (cleanup_phase ?s2)"
    by (simp add: main_after_setup [OF ok])
  have k: "core (snd (cleanup_phase ?s2)) =
             (calls ?s2 @ [''clean_build_dir''], location ?s2, options ?s2)"
    by (rule core_cleanup_phase)
  have r: "fst (cleanup_phase ?s2) = Inr () \<longrightarrow>
             \<not> lexists (fs (snd (cleanup_phase ?s2))) (location ?s2)"
    using cleanup_phase_removes by blast
  have l: "location ?s2 = location s1" and cs: "calls ?s2 = calls s1 @ take n stages"
    using c by (simp_all add: core_def)
  have "\<exists>n\<in>{1..4}. calls ?s2 = calls s1 @ take n stages" using n cs by blast
  moreover have "''clean_build_dir'' \<notin> set stages" by (simp add: stages_def)
  ultimately show ?thesis using m k r l by (simp add: core_def)
qed

text \<open>
  The good run: all four stages are entered, then the cleanup, which succeeds; the
  build directory \<open>/b\<close> is gone at the end.
\<close>

theorem cleanup_runs_once_after_build_witness:
  "setup_phase good_env sample_builder = (Inr (), st_setup) \<and>
   build_phase good_env st_setup = (Inr (), st_built []) \<and>
   calls (st_built []) = calls st_setup @ take 4 stages \<and>
   calls (snd (main good_env sample_builder)) = calls (st_built []) @ [''clean_build_dir''] \<and>
   location (snd (main good_env sample_builder)) = ''/b'' \<and>
   fst (cleanup_phase (st_built [])) = Inr () \<and>
   \<not> lexists (fs (snd (main good_env sample_builder))) ''/b''"
proof -
  have c: "calls (st_built []) = calls st_setup @ take 4 stages \<and> location st_setup = ''/b''"
    by (simp add: st_built_def st_tar_def st_setup_def stages_def)
  show ?thesis
    using cleanup_runs_once_after_build [OF good_setup] good_setup good_build good_cleanup c
    by simp
qed

text \<open>
  Claim C3 as stated fails: in the run whose clone leaves an entry that cannot be
  removed the setup succeeds, the cleanup raises, and the build directory \<open>/b\<close>
  still exists when the process exits.
\<close>

theorem failed_cleanup_leaves_directory:
  "setup_phase stuck_env sample_builder = (Inr (), st_setup) \<and>
   fst (cleanup_phase (snd (build_phase stuck_env st_setup))) = Inl (OSError EACCES) \<and>
   location (snd (main stuck_env sample_builder)) = ''/b'' \<and>
   lexists (fs (snd (main stuck_env sample_builder))) ''/b''"
proof -
  have l: "location ((st_built k)\<lparr>null_open := False, calls := c\<rparr>) = ''/b''" for k c
    by (simp add: st_built_def st_tar_def st_setup_def)
  have f: "fs ((st_built k)\<lparr>null_open := False, calls := c\<rparr>) = fs_built k" for k c
    by (simp add: st_built_def)
  show ?thesis
    by (simp add: stuck_setup stuck_build stuck_cleanup stuck_main built_has_dir l f)
qed

subsection \<open>No archive, or more than one\<close>

text \<open>
  Claim C4, as amended.  When the commands of the acquisition have succeeded and the
  glob for \<open>dl-fldigi-*.tar.gz\<close> in the clone gives no match or more than one, the
  build phase raises \<open>AssertionError\<close> (the specification's
  \<open>ArtifactMismatchError\<close>) in the state those commands left: no later stage is
  entered, the calls of the run end with \<open>get_orig_tar\<close> and the cleanup, and the
  exit status is 1.  If the cleanup does not raise, the build directory does not exist
  when the process exits.
\<close>

theorem dist_archive_mismatch_aborts:
  assumes ok: "setup_phase e s = (Inr (), s1)"
    and dist: "get_orig_tar_dist e (s1\<lparr>calls := calls s1 @ [''get_orig_tar'']\<rparr>) = (Inr (), sd)"
    and glob: "length (glob_glob e (fs sd) (loc sd [''git-tmp'', ''dl-fldigi-*.tar.gz''])) \<noteq> 1"
  shows "build_phase e s1 = (Inl AssertionError, sd) \<and>
         fst (main e s) = 1 \<and>
         calls (snd (main e s)) = calls s1 @ [''get_orig_tar'', ''clean_build_dir''] \<and>
         (fst (cleanup_phase sd) = Inr () \<longrightarrow>
            \<not> lexists (fs (snd (main e s))) (location s1))"
proof -
  from main_on_mismatch [OF ok dist glob]
  have b: "build_phase e s1 = (Inl AssertionError, sd)"
    and m: "main e s = (1, snd (cleanup_phase sd))" by simp_all
  have c: "core sd = (calls s1 @ [''get_orig_tar''], location s1, options s1)"
    using core_dist [of e "s1\<lparr>calls := calls s1 @ [''get_orig_tar'']\<rparr>"] dist
    by (simp add: core_def)
  have k: "core (snd (cleanup_phase sd)) =
             (calls sd @ [''clean_build_dir''], location sd, options sd)"
    by (rule core_cleanup_phase)
  have r: "fst (cleanup_phase sd) = Inr () \<longrightarrow>
             \<not> lexists (fs (snd (cleanup_phase sd))) (location sd)"
    using cleanup_phase_removes by blast
  show ?thesis using b m c k r by (simp add: core_def)
qed

text \<open>
  A run in which \<open>make dist\<close> leaves \<open>fldigi.tgz\<close>: the glob matches nothing, the
  cleanup succeeds and \<open>/b\<close> is gone.
\<close>

theorem dist_archive_mismatch_aborts_witness:
  "setup_phase no_archive_env sample_builder = (Inr (), st_setup) \<and>
   get_orig_tar_dist no_archive_env (st_setup\<lparr>calls := calls st_setup @ [''get_orig_tar'']\<rparr>)
     = (Inr (), st_dist ''fldigi.tgz'' []) \<and>
   length (glob_glob no_archive_env (fs (st_dist ''fldigi.tgz'' []))
     (loc (st_dist ''fldigi.tgz'' []) [''git-tmp'', ''dl-fldigi-*.tar.gz''])) = 0 \<and>
   build_phase no_archive_env st_setup = (Inl AssertionError, st_dist ''fldigi.tgz'' []) \<and>
   fst (main no_archive_env sample_builder) = 1 \<and>
   calls (snd (main no_archive_env sample_builder)) =
     [''setup_build_dir'', ''clean_build_dir'', ''get_orig_tar'', ''clean_build_dir''] \<and>
   fst (cleanup_phase (st_dist ''fldigi.tgz'' [])) = Inr () \<and>
   \<not> lexists (fs (snd (main no_archive_env sample_builder))) ''/b''"
proof -
  have su: "setup_phase no_archive_env sample_builder = (Inr (), st_setup)"
    unfolding no_archive_env_def by (rule sample_setup)
  have glob: "length (glob_glob no_archive_env (fs (st_dist ''fldigi.tgz'' []))
     (loc (st_dist ''fldigi.tgz'' []) [''git-tmp'', ''dl-fldigi-*.tar.gz''])) \<noteq> 1"
    by (simp add: no_archive_glob)
  have l: "location st_setup = ''/b'' \<and>
           calls st_setup = [''setup_build_dir'', ''clean_build_dir'']"
    by (simp add: st_setup_def)
  show ?thesis
    using dist_archive_mismatch_aborts [OF su no_archive_dist glob]
      su no_archive_dist no_archive_glob no_archive_cleanup l
    by simp
qed

text \<open>
  Claim C4 as stated fails: in the same run with an entry below \<open>/b\<close> that cannot
  be removed, the glob matches nothing, the process exits with status 1, and \<open>/b\<close>
  still exists.
\<close>

theorem mismatch_with_failed_cleanup_leaves_directory:
  "setup_phase no_archive_stuck_env sample_builder = (Inr (), st_setup) \<and>
   get_orig_tar_dist no_archive_stuck_env
     (st_setup\<lparr>calls := calls st_setup @ [''get_orig_tar'']\<rparr>)
     = (Inr (), st_dist ''fldigi.tgz'' [''/b/stuck'']) \<and>
   glob_glob no_archive_stuck_env (fs (st_dist ''fldigi.tgz'' [''/b/stuck'']))
     (loc (st_dist ''fldigi.tgz'' [''/b/stuck'']) [''git-tmp'', ''dl-fldigi-*.tar.gz'']) = [] \<and>
   fst (build_phase no_archive_stuck_env st_setup) = Inl AssertionError \<and>
   fst (main no_archive_stuck_env sample_builder) = 1 \<and>
   location st_setup = ''/b'' \<and>
   lexists (fs (snd (main no_archive_stuck_env sample_builder))) ''/b''"
proof -
  have su: "setup_phase no_archive_stuck_env sample_builder = (Inr (), st_setup)"
    unfolding no_archive_stuck_env_def by (rule sample_setup)
  have glob: "length (glob_glob no_archive_stuck_env (fs (st_dist ''fldigi.tgz'' [''/b/stuck'']))
     (loc (st_dist ''fldigi.tgz'' [''/b/stuck'']) [''git-tmp'', ''dl-fldigi-*.tar.gz''])) \<noteq> 1"
    by (simp add: no_archive_stuck_glob)
  have l: "location st_setup = ''/b''" by (simp add: st_setup_def)
  show ?thesis
    using main_on_mismatch [OF su no_archive_stuck_dist glob] su no_archive_stuck_dist
      no_archive_stuck_glob no_archive_stuck_cleanup l
    by (simp split: prod.splits)
qed

subsection \<open>The check of the path\<close>

text \<open>
  What \<open>re.match\<close> accepts: a path of one or more characters of the class, and
  such a path followed by one line feed.
\<close>

lemma re_match_path_iff:
  "re_match_path p =
     ((p \<noteq> [] \<and> list_all in_class p) \<or>
      (\<exists>q. q \<noteq> [] \<and> list_all in_class q \<and> p = q @ [newline]))"
proof -
  have nl: "\<not> in_class newline" by (simp add: in_class_def newline_def)
  have split: "p = takeWhile in_class p @ dropWhile in_class p" by simp
  have rest: "drop (length (takeWhile in_class p)) p = dropWhile in_class p"
    by (metis append_eq_conv_conj split)
  show ?thesis
  proof
    assume m: "re_match_path p"
    then have "takeWhile in_class p \<noteq> [] \<and>
        (dropWhile in_class p = [] \<or> dropWhile in_class p = [newline])"
      unfolding re_match_path_def at_dollar_def Let_def rest .
    then have ne: "takeWhile in_class p \<noteq> []"
      and d: "dropWhile in_class p = [] \<or> dropWhile in_class p = [newline]"
      by blast+
    have run: "list_all in_class (takeWhile in_class p)"
      by (simp add: list_all_iff) (meson set_takeWhileD)
    from d show "(p \<noteq> [] \<and> list_all in_class p) \<or>
      (\<exists>q. q \<noteq> [] \<and> list_all in_class q \<and> p = q @ [newline])"
    proof
      assume "dropWhile in_class p = []"
      then have "takeWhile in_class p = p" using split by simp
      then have "p \<noteq> [] \<and> list_all in_class p" using ne run by metis
      then show ?thesis by blast
    next
      assume "dropWhile in_class p = [newline]"
      then have "p = takeWhile in_class p @ [newline]" using split by simp
      then show ?thesis using ne run by blast
    qed
  next
    assume "(p \<noteq> [] \<and> list_all in_class p) \<or>
      (\<exists>q. q \<noteq> [] \<and> list_all in_class q \<and> p = q @ [newline])"
    then show "re_match_path p"
    proof
      assume a: "p \<noteq> [] \<and> list_all in_class p"
      then have tw: "takeWhile in_class p = p" by (simp add: list_all_iff)
      show ?thesis unfolding re_match_path_def at_dollar_def Let_def tw using a by simp
    next
      assume "\<exists>q. q \<noteq> [] \<and> list_all in_class q \<and> p = q @ [newline]"
      then obtain q where q: "q \<noteq> []" "list_all in_class q" "p = q @ [newline]" by blast
      then have tw: "takeWhile in_class p = q" using nl by (simp add: list_all_iff)
      show ?thesis unfolding re_match_path_def at_dollar_def Let_def tw using q by simp
    qed
  qed
qed

text \<open>
  The check is made on \<open>os.path.realpath\<close> of the option.  A path that fails it
  raises at once: the file system is not touched.  A path that passes it can only raise
  an \<open>OSError\<close> of the cleaning or of \<open>os.mkdir\<close>.
\<close>

lemma setup_charset_raises:
  "\<not> re_match_path (realpath e (directory (options s))) \<Longrightarrow>
   setup_build_dir e s =
     (Inl (Exception ''Some build scripts don't like non a-zA-Z0-9-_ in the path to the build directory''),
      s\<lparr>calls := calls s @ [''setup_build_dir''],
         location := realpath e (directory (options s))\<rparr>)"
  by (simp add: setup_build_dir_def seq_def enter_def Let_def)

lemma clean_build_dir_errors:
  "fst (clean_build_dir s) = Inl x \<Longrightarrow> \<exists>n. x = OSError n"
  by (auto simp: clean_build_dir_def seq_def enter_def fs_do_def os_stat_def rmtree_def
           split: if_splits option.splits node.splits sum.splits error.splits)

lemma setup_charset_passes:
  "re_match_path (realpath e (directory (options s))) \<Longrightarrow>
   fst (setup_build_dir e s) = Inl x \<Longrightarrow> \<exists>n. x = OSError n"
  apply (simp add: setup_build_dir_def seq_def enter_def Let_def split: prod.splits sum.splits)
   apply (metis clean_build_dir_errors fst_conv)
  apply (auto simp: fs_do_def os_mkdir_def split: if_splits option.splits node.splits sum.splits)
  done

text \<open>
  Claim C5 (the code falls short of it).  The path \<open>/b\<close> followed by a line feed
  contains a character that is not allowed, and \<open>setup_build_dir\<close> does not raise:
  it makes the directory.
\<close>

theorem setup_accepts_trailing_newline:
  "\<not> in_class newline \<and>
   \<not> lexists (fs newline_builder) (''/b'' @ [newline]) \<and>
   (case setup_build_dir good_env newline_builder of
      (r, s') \<Rightarrow> r = Inr () \<and> location s' = ''/b'' @ [newline] \<and>
                 lookup (fs s') (''/b'' @ [newline]) = Some Dir)"
  by code_simp

text \<open>
  Claim C10 (the code falls short of it, by the same defect as C5).  The option
  \<open>b\<close> followed by a line feed resolves to \<open>/w/b\<close> followed by a line feed; the
  resolved path is what is checked and where the directory is made, and it is accepted
  although it does not consist of allowed characters only.
\<close>

theorem setup_accepts_resolved_path_with_newline:
  "directory (options relative_newline_builder) = ''b'' @ [newline] \<and>
   realpath good_env (''b'' @ [newline]) = ''/w/b'' @ [newline] \<and>
   \<not> list_all in_class (''/w/b'' @ [newline]) \<and>
   (case setup_build_dir good_env relative_newline_builder of
      (r, s') \<Rightarrow> r = Inr () \<and> location s' = ''/w/b'' @ [newline] \<and>
                 lookup (fs s') (''/w/b'' @ [newline]) = Some Dir)"
  by code_simp

subsection \<open>The commit\<close>

text \<open>
  Claim C6.  Let the commands of the acquisition and the reading of the version have
  succeeded, and let \<open>line\<close> be what \<open>cmd_output\<close> returns for
  \<open>git log --oneline -1\<close>.  Then \<open>self.git\<close> is the first word of \<open>line\<close>;
  if its length is not 7 the build phase raises \<open>AssertionError\<close> there and then:
  the state it ends in is the state the log command left, with \<open>git\<close> assigned,
  and the only stage entered is \<open>get_orig_tar\<close>, so nothing of
  \<open>add_debian_dir\<close> has happened.  (A line without any word raises
  \<open>IndexError\<close> at the same place.)
\<close>

theorem short_hash_is_first_token:
  assumes dist: "get_orig_tar_dist e (s1\<lparr>calls := calls s1 @ [''get_orig_tar'']\<rparr>) = (Inr (), sd)"
    and ver: "get_orig_tar_version e sd = (Inr distname, sv)"
    and log: "cmd_output e [''git'', ''log'', ''--oneline'', ''-1'']
                (Cwd (Some (loc sv [''git-tmp'']))) sv = (Inr line, sl)"
  shows "case split line of
           [] \<Rightarrow> build_phase e s1 = (Inl IndexError, sl)
         | w # ws \<Rightarrow>
             get_orig_tar_commit e sv =
               (if length w = 7 then Inr () else Inl AssertionError, sl\<lparr>git := w\<rparr>) \<and>
             (length w \<noteq> 7 \<longrightarrow>
                build_phase e s1 = (Inl AssertionError, sl\<lparr>git := w\<rparr>) \<and>
                calls (sl\<lparr>git := w\<rparr>) = calls s1 @ [''get_orig_tar''])"
proof -
  have cs: "calls sl = calls s1 @ [''get_orig_tar'']"
  proof -
    have "core sd = core (s1\<lparr>calls := calls s1 @ [''get_orig_tar'']\<rparr>)"
      using core_dist [of e "s1\<lparr>calls := calls s1 @ [''get_orig_tar'']\<rparr>"] dist by simp
    moreover have "core sv = core sd" using core_version [of e sd] ver by simp
    moreover have "core sl = core sv"
      using keepsD [OF keeps_cmd_output [OF fs_blind_core],
          of e "[''git'', ''log'', ''--oneline'', ''-1'']" "Cwd (Some (loc sv [''git-tmp'']))" sv]
      by (simp add: log)
    ultimately show ?thesis by (simp add: core_def)
  qed
  show ?thesis
  proof (cases "split line")
    case Nil
    then have "get_orig_tar_commit e sv = (Inl IndexError, sl)"
      by (simp add: get_orig_tar_commit_def seq_def log)
    then have "get_orig_tar e s1 = (Inl IndexError, sl)"
      by (simp add: get_orig_tar_after_version [OF dist ver] seq_def)
    then show ?thesis using Nil by (simp add: build_phase_unfold)
  next
    case (Cons w ws)
    then have c: "get_orig_tar_commit e sv =
        (if length w = 7 then Inr () else Inl AssertionError, sl\<lparr>git := w\<rparr>)"
      by (simp add: get_orig_tar_commit_def seq_def log py_assert_def ret_def raise_def)
    have "length w \<noteq> 7 \<longrightarrow> build_phase e s1 = (Inl AssertionError, sl\<lparr>git := w\<rparr>)"
      by (simp add: build_phase_unfold get_orig_tar_after_version [OF dist ver] seq_def c)
    then show ?thesis using Cons c cs by simp
  qed
qed

text \<open>A run in which the log prints the commit with six characters.\<close>

theorem short_hash_is_first_token_witness:
  "get_orig_tar_dist short_hash_env (st_setup\<lparr>calls := calls st_setup @ [''get_orig_tar'']\<rparr>)
     = (Inr (), st_dist ''dl-fldigi-3.21.tar.gz'' []) \<and>
   get_orig_tar_version short_hash_env (st_dist ''dl-fldigi-3.21.tar.gz'' []) =
     (Inr ''dl-fldigi-3.21.tar.gz'', (st_dist ''dl-fldigi-3.21.tar.gz'' [])\<lparr>version := ''3.21''\<rparr>) \<and>
   cmd_output short_hash_env [''git'', ''log'', ''--oneline'', ''-1'']
     (Cwd (Some (loc ((st_dist ''dl-fldigi-3.21.tar.gz'' [])\<lparr>version := ''3.21''\<rparr>) [''git-tmp''])))
     ((st_dist ''dl-fldigi-3.21.tar.gz'' [])\<lparr>version := ''3.21''\<rparr>) =
   (Inr ''abcdef Fix'', (st_dist ''dl-fldigi-3.21.tar.gz'' [])\<lparr>version := ''3.21''\<rparr>) \<and>
   split ''abcdef Fix'' = [''abcdef'', ''Fix''] \<and>
   length ''abcdef'' \<noteq> 7 \<and>
   build_phase short_hash_env st_setup =
     (Inl AssertionError,
      (st_dist ''dl-fldigi-3.21.tar.gz'' [])\<lparr>version := ''3.21'', git := ''abcdef''\<rparr>) \<and>
   calls ((st_dist ''dl-fldigi-3.21.tar.gz'' [])\<lparr>version := ''3.21'', git := ''abcdef''\<rparr>) =
     calls st_setup @ [''get_orig_tar'']"
  using short_hash_is_first_token [OF short_hash_dist short_hash_version short_hash_log]
    short_hash_dist short_hash_version short_hash_log short_hash_split
  by simp

subsection \<open>The changelog\<close>

text \<open>
  Claim C7, as amended.  Let the changelog that is read be a template of text and the
  placeholders \<open>{version}\<close>, \<open>{distro}\<close>, \<open>{commit}\<close>, \<open>{date}\<close>, and let
  \<open>d\<close> be the distribution name: the option if it is given and not the empty
  string, otherwise \<open>unstable\<close> when the host's distributor is Debian, else the
  host's release codename.  Then \<open>add_debian_dir\<close> writes, in one \<open>write\<close> to
  the changelog file opened anew, the template with \<open>{version}\<close> replaced by
  \<open><version>-<git>\<close>, \<open>{distro}\<close> by \<open>d\<close>, \<open>{commit}\<close> by the commit and
  \<open>{date}\<close> by what \<open>email.utils.formatdate()\<close> returns; when the write
  succeeds, this text is the content of the file.
\<close>

theorem changelog_substitution:
  assumes tmpl: "open_read (fs s) (loc s [debsrc s, ''debian'', ''changelog'']) = Inr (render ps)"
    and known: "list_all known_piece ps"
    and dist: "resolved_distro e s d f"
  shows "add_debian_dir_changelog e s =
           fs_do (\<lambda>g. write_file g (loc s [debsrc s, ''debian'', ''changelog''])
                    (fill [(''version'', version s @ ''-'' @ git s), (''distro'', d),
                           (''commit'', git s), (''date'', formatdate e)] ps))
             (s\<lparr>fs := f\<rparr>) \<and>
         (\<forall>g'. write_file f (loc s [debsrc s, ''debian'', ''changelog''])
                 (fill [(''version'', version s @ ''-'' @ git s), (''distro'', d),
                        (''commit'', git s), (''date'', formatdate e)] ps) = Inr g' \<longrightarrow>
               lookup g' (loc s [debsrc s, ''debian'', ''changelog'']) =
                 Some (File (fill [(''version'', version s @ ''-'' @ git s), (''distro'', d),
                                   (''commit'', git s), (''date'', formatdate e)] ps)))"
proof -
  have r: "fs_get (\<lambda>g. open_read g (loc s [debsrc s, ''debian'', ''changelog''])) s =
             (Inr (render ps), s)"
    by (simp add: fs_get_def tmpl)
  have "add_debian_dir_changelog e s =
           fs_do (\<lambda>g. write_file g (loc s [debsrc s, ''debian'', ''changelog''])
                    (fill [(''version'', version s @ ''-'' @ git s), (''distro'', d),
                           (''commit'', git s), (''date'', formatdate e)] ps))
             (s\<lparr>fs := f\<rparr>)"
    unfolding add_debian_dir_changelog_def Let_def
    by (simp add: seq_def r resolved_distro_run [OF dist] str_format_render [OF known])
  then show ?thesis using write_file_content by blast
qed

text \<open>The sample changelog on a host that says \<open>Ubuntu\<close> and \<open>natty\<close>.\<close>

theorem changelog_substitution_witness:
  "open_read (fs (st_tree None)) (loc (st_tree None) [debsrc (st_tree None), ''debian'', ''changelog''])
     = Inr (render sample_pieces) \<and>
   render sample_pieces = ''({version}) {distro}; {commit} {date}'' \<and>
   list_all known_piece sample_pieces \<and>
   resolved_distro good_env (st_tree None) ''natty'' fs_tree \<and>
   fst (add_debian_dir_changelog good_env (st_tree None)) = Inr () \<and>
   lookup (fs (snd (add_debian_dir_changelog good_env (st_tree None))))
     (loc (st_tree None) [debsrc (st_tree None), ''debian'', ''changelog'']) =
     Some (File ''(3.21-abcdef1) natty; abcdef1 Thu, 03 Nov 2011 12:00:00 -0000'')"
proof -
  have r: "resolved_distro good_env (st_tree None) ''natty'' fs_tree"
    by (rule tree_resolved) simp
  have p: "render sample_pieces = ''({version}) {distro}; {commit} {date}''"
    by code_simp
  note c = changelog_substitution [OF tree_read sample_pieces_known r]
  have w: "fst (add_debian_dir_changelog good_env (st_tree None)) = Inr ()"
    using c tree_write [of None] by simp
  obtain g where g: "fs_do (\<lambda>g. write_file g (loc (st_tree None) [debsrc (st_tree None), ''debian'', ''changelog''])
         (fill [(''version'', version (st_tree None) @ ''-'' @ git (st_tree None)), (''distro'', ''natty''),
         (''commit'', git (st_tree None)), (''date'', formatdate good_env)] sample_pieces))
          ((st_tree None)\<lparr>fs := fs_tree\<rparr>) = (Inr (), g)"
    using tree_write [of None] by (metis prod.collapse)
  then have "write_file fs_tree (loc (st_tree None) [debsrc (st_tree None), ''debian'', ''changelog''])
         (fill [(''version'', version (st_tree None) @ ''-'' @ git (st_tree None)), (''distro'', ''natty''),
         (''commit'', git (st_tree None)), (''date'', formatdate good_env)] sample_pieces) = Inr (fs g)"
    by (auto simp: fs_do_def split: sum.splits)
  then have "lookup (fs g) (loc (st_tree None) [debsrc (st_tree None), ''debian'', ''changelog'']) =
     Some (File ''(3.21-abcdef1) natty; abcdef1 Thu, 03 Nov 2011 12:00:00 -0000'')"
    using c tree_fill [of None] by metis
  moreover have "snd (add_debian_dir_changelog good_env (st_tree None)) = g"
    using c g by simp
  ultimately show ?thesis using tree_read [of None] sample_pieces_known r p w by simp
qed

text \<open>
  Claim C7 as stated fails: with the option given as the empty string (\<open>-n ''\<close>),
  \<open>{distro}\<close> is replaced by the host's codename, not by the option.
\<close>

theorem empty_distro_option_not_used:
  "distro (options (st_tree (Some []))) = Some [] \<and>
   (case add_debian_dir_changelog good_env (st_tree (Some [])) of
      (r, s') \<Rightarrow>
        r = Inr () \<and>
        lookup (fs s') ''/b/dl-fldigi-3.21-abcdef1/debian/changelog'' =
          Some (File ''(3.21-abcdef1) natty; abcdef1 Thu, 03 Nov 2011 12:00:00 -0000''))"
  by code_simp

subsection \<open>Capturing the output of a program\<close>

text \<open>
  Claim C8, as amended.  When the program exits with status 0, \<open>cmd_output\<close>
  returns the whole of what it wrote to its standard output, with the white space at
  both ends removed; the line breaks inside stay.  The program runs in the build
  directory unless \<open>cwd\<close> is given.
\<close>

theorem cmd_output_whole_output:
  "run_proc e args (case kw of Unset \<Rightarrow> Some (location s) | Cwd c \<Rightarrow> c) (fs s) = (Inr 0, out, f) \<Longrightarrow>
   cmd_output e args kw s = (Inr (strip out), s\<lparr>fs := f\<rparr>)"
  by (simp add: cmd_output_def cmd_run_def seq_def ret_def Let_def)

text \<open>A log of two lines.\<close>

theorem cmd_output_whole_output_witness:
  "run_proc two_line_env [''git'', ''log'', ''--oneline'', ''-2''] (Some ''/b'') fs_setup =
     (Inr 0, ''abcdef1 Fix'' @ [newline] @ ''0123456 Old'' @ [newline], fs_setup) \<and>
   cmd_output two_line_env [''git'', ''log'', ''--oneline'', ''-2''] Unset st_setup =
     (Inr (''abcdef1 Fix'' @ [newline] @ ''0123456 Old''), st_setup)"
proof -
  have r: "run_proc two_line_env [''git'', ''log'', ''--oneline'', ''-2'']
             (case Unset of Unset \<Rightarrow> Some (location st_setup) | Cwd c \<Rightarrow> c) (fs st_setup) =
           (Inr 0, ''abcdef1 Fix'' @ [newline] @ ''0123456 Old'' @ [newline], fs_setup)"
    by code_simp
  have t: "strip (''abcdef1 Fix'' @ [newline] @ ''0123456 Old'' @ [newline]) =
           ''abcdef1 Fix'' @ [newline] @ ''0123456 Old''"
    by code_simp
  have k: "st_setup\<lparr>fs := fs_setup\<rparr> = st_setup"
    by (simp add: st_setup_def)
  have l: "location st_setup = ''/b'' \<and> fs st_setup = fs_setup"
    by (simp add: st_setup_def)
  show ?thesis
    using cmd_output_whole_output [OF r] r t k l by simp
qed

text \<open>
  Claim C8 as stated fails: of an output of two lines \<open>cmd_output\<close> returns both,
  where the first line alone, trimmed, is \<open>abcdef1 Fix\<close>.
\<close>

theorem cmd_output_returns_both_lines:
  "fst (cmd_output two_line_env [''git'', ''log'', ''--oneline'', ''-2''] Unset st_setup) =
     Inr (''abcdef1 Fix'' @ [newline] @ ''0123456 Old'') \<and>
   capture_one_line_spec (''abcdef1 Fix'' @ [newline] @ ''0123456 Old'' @ [newline]) =
     ''abcdef1 Fix'' \<and>
   ''abcdef1 Fix'' @ [newline] @ ''0123456 Old'' \<noteq> ''abcdef1 Fix''"
  by code_simp

subsection \<open>The version\<close>

text \<open>
  Claim C9, as amended.  When \<open>get_orig_tar\<close> returns, the glob in the clone has
  given exactly one path, and the name of that file is \<open>dl-fldigi-\<close>, the version,
  \<open>.tar.gz\<close>: the version is what is left of the name when the prefix and the
  suffix are taken off.  Nothing checks that it is not empty.
\<close>

theorem version_between_prefix_and_suffix:
  assumes "get_orig_tar e s = (Inr (), s')"
  shows "\<exists>sd p.
     get_orig_tar_dist e (s\<lparr>calls := calls s @ [''get_orig_tar'']\<rparr>) = (Inr (), sd) \<and>
     glob_glob e (fs sd) (loc sd [''git-tmp'', ''dl-fldigi-*.tar.gz'']) = [p] \<and>
     basename p = ''dl-fldigi-'' @ version s' @ ''.tar.gz''"
proof -
  from get_orig_tar_Inr [OF assms] obtain sd dn sv sc where
    d: "get_orig_tar_dist e (s\<lparr>calls := calls s @ [''get_orig_tar'']\<rparr>) = (Inr (), sd)" and
    v: "get_orig_tar_version e sd = (Inr dn, sv)" and
    c: "get_orig_tar_commit e sv = (Inr (), sc)" and
    k: "get_orig_tar_copy dn sc = (Inr (), s')" by blast
  from get_orig_tar_version_result [OF v] obtain p where
    g: "glob_glob e (fs sd) (loc sd [''git-tmp'', ''dl-fldigi-*.tar.gz'']) = [p]" and
    b: "dn = basename p" and n: "dn = ''dl-fldigi-'' @ version sv @ ''.tar.gz''" by blast
  have "version sc = version sv" using version_commit [of e sv] c by simp
  moreover have "version s' = version sc" using version_copy [of dn sc] k by simp
  ultimately have "basename p = ''dl-fldigi-'' @ version s' @ ''.tar.gz''" using b n by simp
  then show ?thesis using d g by blast
qed

text \<open>The good run: the archive \<open>dl-fldigi-3.21.tar.gz\<close> gives version 3.21.\<close>

theorem version_between_prefix_and_suffix_witness:
  "get_orig_tar good_env st_setup = (Inr (), st_tar []) \<and>
   version (st_tar []) = ''3.21'' \<and>
   (\<exists>sd p.
      get_orig_tar_dist good_env (st_setup\<lparr>calls := calls st_setup @ [''get_orig_tar'']\<rparr>)
        = (Inr (), sd) \<and>
      glob_glob good_env (fs sd) (loc sd [''git-tmp'', ''dl-fldigi-*.tar.gz'']) = [p] \<and>
      basename p = ''dl-fldigi-'' @ ''3.21'' @ ''.tar.gz'')"
proof -
  have v: "version (st_tar []) = ''3.21''" by (simp add: st_tar_def)
  show ?thesis
    using version_between_prefix_and_suffix [OF good_tar] good_tar v by simp
qed

text \<open>
  Claim C9 as stated fails: \<open>make dist\<close> of a project with an empty version leaves
  \<open>dl-fldigi-.tar.gz\<close>, and \<open>get_orig_tar\<close> returns with the empty version.
\<close>

theorem empty_version_accepted:
  "(case get_orig_tar empty_version_env st_setup of
      (r, s') \<Rightarrow> r = Inr () \<and> version s' = [] \<and> origname s' = ''dl-fldigi_.orig.tar.gz'')"
  by code_simp

end
